theory Spec2Isabelle
  imports Complex_Main "HOL-Library.AList"
begin

section \<open>Values\<close>

text \<open>
  The server plugin (\<^verbatim>\<open>src/index.ts\<close>) handles values of the JavaScript run time:
  what \<^verbatim>\<open>JSON.parse\<close> returns, the fields of a request body, and \<^verbatim>\<open>undefined\<close> for a
  field or property that is missing. An object is the list of its own properties in the
  order in which JavaScript lists them, their keys distinct (the operations below keep
  them so), an array the list of its
  elements (a hole reads as \<^verbatim>\<open>undefined\<close>, as in JavaScript). Strings are lists of
  characters, one per code unit.

  A number reaches the code only through \<^verbatim>\<open>JSON.parse\<close> and \<^verbatim>\<open>request.json()\<close>, which return
  a finite number, the negative zero (for \<^verbatim>\<open>-0\<close>) or an infinity (for a literal beyond the
  range of a double, such as \<^verbatim>\<open>1e400\<close>); the code does no arithmetic, so \<^verbatim>\<open>NaN\<close> never
  arises. \<open>JNum q\<close> is the finite number of value \<open>q\<close>, with \<open>JNum 0\<close> the positive zero; the
  code only tests a number for truthiness and hands it to \<^verbatim>\<open>JSON.stringify\<close>.

  Two things are left out, and no statement below depends on them: JavaScript lists a
  new integer-like key before the other keys of an object, where the model puts every
  new key last; and a property of an array that is neither an index nor \<^verbatim>\<open>length\<close> is
  invisible to \<^verbatim>\<open>JSON.stringify\<close> (hence to the stored text and to the response), so the
  model does not keep it.
\<close>

datatype jsvalue =
    JUndefined
  | JNull
  | JBool bool
  | JNum rat
  | JNegZero
  | JInfinity
  | JNegInfinity
  | JStr string
  | JArr "jsvalue list"
  | JObj "(string \<times> jsvalue) list"

text \<open>
  \<^verbatim>\<open>!x\<close> is true for \<^verbatim>\<open>undefined\<close>, \<^verbatim>\<open>null\<close>, \<^verbatim>\<open>false\<close>, \<^verbatim>\<open>0\<close>, \<^verbatim>\<open>-0\<close> and \<^verbatim>\<open>""\<close> only.
\<close>

fun truthy :: "jsvalue \<Rightarrow> bool" where
  "truthy JUndefined = False"
| "truthy JNull = False"
| "truthy (JBool b) = b"
| "truthy (JNum n) = (n \<noteq> 0)"
| "truthy JNegZero = False"
| "truthy JInfinity = True"
| "truthy JNegInfinity = True"
| "truthy (JStr s) = (s \<noteq> [])"
| "truthy (JArr xs) = True"
| "truthy (JObj kvs) = True"

fun is_object :: "jsvalue \<Rightarrow> bool" where
  "is_object (JObj kvs) = True"
| "is_object v = False"

fun is_primitive :: "jsvalue \<Rightarrow> bool" where
  "is_primitive (JBool b) = True"
| "is_primitive (JNum n) = True"
| "is_primitive JNegZero = True"
| "is_primitive JInfinity = True"
| "is_primitive JNegInfinity = True"
| "is_primitive (JStr s) = True"
| "is_primitive v = False"

datatype error = Unauthorized | BodyUnreadable | SyntaxError | TypeError | RangeError

subsection \<open>Array indices\<close>

text \<open>
  A property key is an array index when it is the canonical decimal form of an integer
  below \<open>2^32 - 1\<close>: digits only, no leading zero except for \<^verbatim>\<open>"0"\<close> itself.
\<close>

definition is_digit :: "char \<Rightarrow> bool" where
  "is_digit c = (c \<in> set ''0123456789'')"

definition digit_value :: "char \<Rightarrow> nat" where
  "digit_value c = of_char c - 48"

definition decimal_value :: "string \<Rightarrow> nat" where
  "decimal_value s = foldl (\<lambda>n c. 10 * n + digit_value c) 0 s"

definition array_index :: "string \<Rightarrow> nat option" where
  "array_index k =
     (if k \<noteq> [] \<and> list_all is_digit k \<and> (hd k \<noteq> CHR ''0'' \<or> k = ''0'')
         \<and> decimal_value k < 4294967295
      then Some (decimal_value k) else None)"

definition digit_char :: "nat \<Rightarrow> char" where
  "digit_char d = char_of (48 + d)"

fun string_of_nat :: "nat \<Rightarrow> string" where
  "string_of_nat n =
     (if n < 10 then [digit_char n] else string_of_nat (n div 10) @ [digit_char (n mod 10)])"

text \<open>\<^verbatim>\<open>xs[i] = v\<close> on an array: past the end it extends the array, leaving holes.\<close>

definition set_element :: "jsvalue list \<Rightarrow> nat \<Rightarrow> jsvalue \<Rightarrow> jsvalue list" where
  "set_element xs i v =
     (if i < length xs then xs[i := v]
      else xs @ replicate (i - length xs) JUndefined @ [v])"

subsection \<open>Own properties\<close>

fun own_property :: "jsvalue \<Rightarrow> string \<Rightarrow> jsvalue option" where
  "own_property (JObj kvs) k = map_of kvs k"
| "own_property (JArr xs) k =
     (case array_index k of
        Some i \<Rightarrow> if i < length xs then Some (xs ! i) else None
      | None \<Rightarrow> if k = ''length'' then Some (JNum (of_nat (length xs))) else None)"
| "own_property (JStr s) k =
     (case array_index k of
        Some i \<Rightarrow> if i < length s then Some (JStr [s ! i]) else None
      | None \<Rightarrow> if k = ''length'' then Some (JNum (of_nat (length s))) else None)"
| "own_property v k = None"

text \<open>
  The own enumerable properties that an object spread \<^verbatim>\<open>{...x}\<close> copies: the
  properties of an object, the elements of an array and the characters of a string under
  their indices, nothing for the other values.
\<close>

fun entries :: "jsvalue \<Rightarrow> (string \<times> jsvalue) list" where
  "entries (JObj kvs) = kvs"
| "entries (JArr xs) = map (\<lambda>i. (string_of_nat i, xs ! i)) [0..<length xs]"
| "entries (JStr s) = map (\<lambda>i. (string_of_nat i, JStr [s ! i])) [0..<length s]"
| "entries v = []"

definition define_all :: "(string \<times> jsvalue) list \<Rightarrow> (string \<times> jsvalue) list
    \<Rightarrow> (string \<times> jsvalue) list" where
  "define_all es acc = fold (\<lambda>(k, v). AList.update k v) es acc"

text \<open>The object literal \<^verbatim>\<open>{ ...existingMetadata, ...newMetadata }\<close> of \<^verbatim>\<open>setMetadata\<close>.\<close>

definition merge :: "jsvalue \<Rightarrow> jsvalue \<Rightarrow> jsvalue" where
  "merge existing incoming = JObj (define_all (entries incoming) (define_all (entries existing) []))"

declare string_of_nat.simps [simp del]

section \<open>Stored text\<close>

text \<open>
  The \<^verbatim>\<open>metadata\<close> column holds a string or \<^verbatim>\<open>null\<close>. The code looks at a stored string in
  two ways only: it tests it for truthiness (only the empty string is falsy) and it hands
  it to \<^verbatim>\<open>JSON.parse\<close>; and it makes a string in one way only, by \<^verbatim>\<open>JSON.stringify\<close>. A
  string is therefore represented by what these two observations see of it: the empty
  string, a non-empty string that \<^verbatim>\<open>JSON.parse\<close> rejects, or a non-empty string together
  with the value \<^verbatim>\<open>JSON.parse\<close> returns for it.
\<close>

datatype stored_text = EmptyText | Malformed | Serialized jsvalue

fun JSON_parse :: "stored_text \<Rightarrow> error + jsvalue" where
  "JSON_parse EmptyText = Inl SyntaxError"
| "JSON_parse Malformed = Inl SyntaxError"
| "JSON_parse (Serialized v) = Inr v"

text \<open>
  What \<^verbatim>\<open>JSON.stringify\<close> writes of a value, read back: a property whose value is
  \<^verbatim>\<open>undefined\<close> is omitted, an \<^verbatim>\<open>undefined\<close> array element is written as \<^verbatim>\<open>null\<close>, an
  infinity is written as \<^verbatim>\<open>null\<close> and the negative zero as \<^verbatim>\<open>0\<close>. A finite number is
  written so that it reads back as the same number.
\<close>

fun written :: "jsvalue \<Rightarrow> jsvalue" where
  "written (JArr xs) = JArr (map (\<lambda>x. if x = JUndefined then JNull else written x) xs)"
| "written (JObj kvs) =
     JObj (map (\<lambda>(k, v). (k, written v)) (filter (\<lambda>(k, v). v \<noteq> JUndefined) kvs))"
| "written JNegZero = JNum 0"
| "written JInfinity = JNull"
| "written JNegInfinity = JNull"
| "written v = v"

text \<open>\<^verbatim>\<open>JSON.stringify(undefined)\<close> is \<^verbatim>\<open>undefined\<close>, not a string.\<close>

fun JSON_stringify :: "jsvalue \<Rightarrow> stored_text option" where
  "JSON_stringify JUndefined = None"
| "JSON_stringify v = Some (Serialized (written v))"

section \<open>The JavaScript engine\<close>

text \<open>
  Reading \<^verbatim>\<open>current[key]\<close> follows the prototype chain, so a key such as \<^verbatim>\<open>constructor\<close> or
  \<^verbatim>\<open>__proto__\<close> that is not an own property is answered by a built-in object of the engine.
  Which names the built-in prototypes define depends on the engine and its version, so the
  model takes them as a parameter:
  \<^item> \<open>prototype E v k\<close> says whether the prototype chain of \<open>v\<close> has a property \<open>k\<close>, and
    whether it is a data property (all of them writable functions or objects) or an
    accessor with a setter (\<^verbatim>\<open>__proto__\<close>);
  \<^item> \<open>on_builtin E v ks x\<close> is the error in which the rest of a path walk ends that
    has moved from \<open>v\<close> onto a built-in object, with the keys \<open>ks\<close> left and \<open>x\<close> to
    assign, or \<open>None\<close> when it ends without one; it has then written to built-in
    objects only, which \<^verbatim>\<open>JSON.stringify\<close> does not show;
  \<^item> \<open>to_array_length E x\<close> is the length that assigning \<open>x\<close> to the \<^verbatim>\<open>length\<close> of an array
    sets, \<open>None\<close> when the engine's number conversion of \<open>x\<close> is not a valid array length
    (a \<^verbatim>\<open>RangeError\<close>).
  The built-in prototypes are taken to be as the engine creates them: the path walk below
  can add properties to them, which later requests would inherit.
\<close>

datatype inherited = NoProperty | DataProperty | AccessorProperty

record engine =
  prototype :: "jsvalue \<Rightarrow> string \<Rightarrow> inherited"
  on_builtin :: "jsvalue \<Rightarrow> string list \<Rightarrow> jsvalue \<Rightarrow> error option"
  to_array_length :: "jsvalue \<Rightarrow> nat option"

datatype lookup = Found jsvalue | Builtin

text \<open>\<^verbatim>\<open>current[key]\<close> as an expression. Reading a property of \<^verbatim>\<open>undefined\<close> or \<^verbatim>\<open>null\<close> throws.\<close>

fun get_property :: "engine \<Rightarrow> jsvalue \<Rightarrow> string \<Rightarrow> error + lookup" where
  "get_property E JUndefined k = Inl TypeError"
| "get_property E JNull k = Inl TypeError"
| "get_property E cur k =
     (case own_property cur k of
        Some v \<Rightarrow> Inr (Found v)
      | None \<Rightarrow> if prototype E cur k = NoProperty then Inr (Found JUndefined) else Inr Builtin)"

text \<open>
  \<^verbatim>\<open>current[key] = v\<close> in strict mode (the file is an ES module), giving \<open>current\<close> as it
  is afterwards. On \<^verbatim>\<open>undefined\<close> and \<^verbatim>\<open>null\<close> it throws; on a string, a number or a boolean
  it throws as well, unless an inherited setter takes the value; on an object or array an
  inherited setter takes the value and no own property is made.
\<close>

fun set_property :: "engine \<Rightarrow> jsvalue \<Rightarrow> string \<Rightarrow> jsvalue \<Rightarrow> error + jsvalue" where
  "set_property E JUndefined k v = Inl TypeError"
| "set_property E JNull k v = Inl TypeError"
| "set_property E (JObj kvs) k v =
     (if map_of kvs k = None \<and> prototype E (JObj kvs) k = AccessorProperty then Inr (JObj kvs)
      else Inr (JObj (AList.update k v kvs)))"
| "set_property E (JArr xs) k v =
     (case array_index k of
        Some i \<Rightarrow> Inr (JArr (set_element xs i v))
      | None \<Rightarrow>
          if k = ''length'' then
            (case to_array_length E v of
               None \<Rightarrow> Inl RangeError
             | Some n \<Rightarrow> Inr (JArr (take n xs @ replicate (n - length xs) JUndefined)))
          else Inr (JArr xs))"
| "set_property E cur k v =
     (if own_property cur k = None \<and> prototype E cur k = AccessorProperty then Inr cur
      else Inl TypeError)"

text \<open>
  Writing back the child that the walk has changed in place: \<open>current\<close> with the value
  under \<open>k\<close> replaced. A string, number or boolean child cannot change, and neither can a
  property of an array that is not an element.
\<close>

fun store_child :: "jsvalue \<Rightarrow> string \<Rightarrow> jsvalue \<Rightarrow> jsvalue" where
  "store_child (JObj kvs) k c = JObj (AList.update k c kvs)"
| "store_child (JArr xs) k c =
     (case array_index k of Some i \<Rightarrow> JArr (set_element xs i c) | None \<Rightarrow> JArr xs)"
| "store_child cur k c = cur"

section \<open>The path walk of updateMetadata\<close>

text \<open>\<^verbatim>\<open>path.split(".")\<close>: never an empty list; the empty path gives one empty key.\<close>

fun split_path :: "string \<Rightarrow> string list" where
  "split_path [] = [[]]"
| "split_path (c # cs) =
     (if c = CHR ''.'' then [] # split_path cs
      else (case split_path cs of [] \<Rightarrow> [[c]] | w # ws \<Rightarrow> (c # w) # ws))"

text \<open>
  Lines 192 to 201 of the handler:
  \<^verbatim>\<open>
  let current = metadata;
  for (let i = 0; i < keys.length - 1; i++) {
    if (!current[keys[i]]) { current[keys[i]] = {}; }
    current = current[keys[i]];
  }
  current[keys[keys.length - 1]] = value;
  \<close>
  The loop mutates the tree in place; \<open>walk\<close> returns the subtree at \<open>current\<close> as it is
  after the assignment. For an empty list of keys (which \<open>split_path\<close> never returns)
  \<^verbatim>\<open>keys[-1]\<close> is \<^verbatim>\<open>undefined\<close>, which as a key reads \<^verbatim>\<open>"undefined"\<close>.
\<close>

fun walk :: "engine \<Rightarrow> jsvalue \<Rightarrow> string list \<Rightarrow> jsvalue \<Rightarrow> error + jsvalue" where
  "walk E cur [] v = set_property E cur ''undefined'' v"
| "walk E cur [k] v = set_property E cur k v"
| "walk E cur (k # ks) v =
     (case get_property E cur k of
        Inl e \<Rightarrow> Inl e
      | Inr Builtin \<Rightarrow>
          (case on_builtin E cur (k # ks) v of Some e \<Rightarrow> Inl e | None \<Rightarrow> Inr cur)
      | Inr (Found c) \<Rightarrow>
          if truthy c then
            (case walk E c ks v of
               Inl e \<Rightarrow> Inl e
             | Inr c' \<Rightarrow> Inr (store_child cur k c'))
          else
            (case set_property E cur k (JObj []) of
               Inl e \<Rightarrow> Inl e
             | Inr cur' \<Rightarrow>
                 (case walk E (JObj []) ks v of
                    Inl e \<Rightarrow> Inl e
                  | Inr c' \<Rightarrow> Inr (store_child cur' k c'))))"

definition setPath :: "engine \<Rightarrow> jsvalue \<Rightarrow> string \<Rightarrow> jsvalue \<Rightarrow> error + jsvalue" where
  "setPath E tree path v = walk E tree (split_path path) v"

section \<open>The storage adapter\<close>

text \<open>
  The adapter belongs to the host framework. The handlers call it in two ways, always with
  \<^verbatim>\<open>model: "user"\<close> and \<^verbatim>\<open>where: [{ field: "id", value: session.user.id }]\<close>:
  \<^verbatim>\<open>findOne\<close>, which returns the user's row or \<^verbatim>\<open>null\<close>, and \<^verbatim>\<open>update\<close> with
  \<^verbatim>\<open>data: { metadata: ... }\<close>. Of a row only the \<^verbatim>\<open>metadata\<close> column matters here: \<^verbatim>\<open>null\<close>
  (\<open>None\<close>) or a string. The database records every call made to it. An update of a user
  that does not exist changes nothing, and a value \<^verbatim>\<open>undefined\<close> leaves the column as it is.
  The adapter itself is taken not to fail.
\<close>

type_synonym user_id = string

datatype data = DataUndefined | DataNull | DataText stored_text

datatype call = FindOne user_id | Update user_id data

record db =
  rows :: "user_id \<Rightarrow> stored_text option option"
  calls :: "call list"

definition findOne :: "user_id \<Rightarrow> db \<Rightarrow> stored_text option option \<times> db" where
  "findOne uid d = (rows d uid, d\<lparr>calls := calls d @ [FindOne uid]\<rparr>)"

fun set_column :: "data \<Rightarrow> stored_text option \<Rightarrow> stored_text option" where
  "set_column DataUndefined old = old"
| "set_column DataNull old = None"
| "set_column (DataText t) old = Some t"

definition update_row :: "user_id \<Rightarrow> data \<Rightarrow> db \<Rightarrow> db" where
  "update_row uid x d =
     d\<lparr>rows := (case rows d uid of
                  None \<Rightarrow> rows d
                | Some old \<Rightarrow> (rows d)(uid := Some (set_column x old))),
       calls := calls d @ [Update uid x]\<rparr>"

text \<open>\<^verbatim>\<open>user?.metadata\<close>: \<^verbatim>\<open>undefined\<close> when there is no row, both read as \<open>None\<close>.\<close>

fun metadata_of :: "stored_text option option \<Rightarrow> stored_text option" where
  "metadata_of None = None"
| "metadata_of (Some m) = m"

text \<open>\<^verbatim>\<open>user?.metadata ? JSON.parse(user.metadata as string) : otherwise\<close>\<close>

fun parse_or :: "stored_text option \<Rightarrow> jsvalue \<Rightarrow> error + jsvalue" where
  "parse_or None otherwise = Inr otherwise"
| "parse_or (Some EmptyText) otherwise = Inr otherwise"
| "parse_or (Some t) otherwise = JSON_parse t"

definition data_of :: "stored_text option \<Rightarrow> data" where
  "data_of s = (case s of None \<Rightarrow> DataUndefined | Some t \<Rightarrow> DataText t)"

section \<open>The four endpoints\<close>

text \<open>
  A handler is given the session (the user id of \<^verbatim>\<open>ctx.context.session\<close>, \<open>None\<close> when the
  session, its user or the id is missing), the outcome of \<^verbatim>\<open>ctx.request.json()\<close> (\<open>None\<close>
  when the body cannot be read as JSON) and the database, and returns what it throws or
  passes to \<^verbatim>\<open>ctx.json\<close>, and the database afterwards. (The framework's
  \<^verbatim>\<open>sessionMiddleware\<close> runs before each handler; the handlers repeat its check, and this
  check is what is modelled.)
\<close>

text \<open>\<^verbatim>\<open>!session?.user?.id\<close> also rejects an empty id.\<close>

fun authenticated :: "user_id option \<Rightarrow> user_id option" where
  "authenticated None = None"
| "authenticated (Some uid) = (if uid = [] then None else Some uid)"

text \<open>
  Destructuring the body: \<^verbatim>\<open>null\<close> cannot be destructured, and a field that the body does
  not have is \<^verbatim>\<open>undefined\<close>. (No built-in prototype has a property named \<^verbatim>\<open>metadata\<close>,
  \<^verbatim>\<open>merge\<close>, \<^verbatim>\<open>path\<close> or \<^verbatim>\<open>value\<close>.)
\<close>

fun read_body :: "jsvalue option \<Rightarrow> error + jsvalue" where
  "read_body None = Inl BodyUnreadable"
| "read_body (Some JNull) = Inl TypeError"
| "read_body (Some JUndefined) = Inl TypeError"
| "read_body (Some body) = Inr body"

definition field :: "jsvalue \<Rightarrow> string \<Rightarrow> jsvalue" where
  "field body k = (case own_property body k of Some v \<Rightarrow> v | None \<Rightarrow> JUndefined)"

text \<open>The default of \<^verbatim>\<open>merge = true\<close> applies when the field is \<^verbatim>\<open>undefined\<close>.\<close>

definition merge_flag :: "jsvalue \<Rightarrow> jsvalue" where
  "merge_flag body = (case field body ''merge'' of JUndefined \<Rightarrow> JBool True | m \<Rightarrow> m)"

text \<open>Lines 89 to 99: \<^verbatim>\<open>if (merge && user?.metadata) { ... } else { ... }\<close>\<close>

definition updatedMetadata :: "jsvalue \<Rightarrow> jsvalue \<Rightarrow> stored_text option \<Rightarrow> error + jsvalue" where
  "updatedMetadata mergeFlag newMetadata stored =
     (case stored of
        None \<Rightarrow> Inr newMetadata
      | Some t \<Rightarrow>
          if truthy mergeFlag \<and> t \<noteq> EmptyText then
            (case JSON_parse t of
               Inl e \<Rightarrow> Inl e
             | Inr existingMetadata \<Rightarrow> Inr (merge existingMetadata newMetadata))
          else Inr newMetadata)"

definition setMetadata :: "user_id option \<Rightarrow> jsvalue option \<Rightarrow> db \<Rightarrow> (error + jsvalue) \<times> db" where
  "setMetadata session request d =
     (case authenticated session of
        None \<Rightarrow> (Inl Unauthorized, d)
      | Some uid \<Rightarrow>
          (case read_body request of
             Inl e \<Rightarrow> (Inl e, d)
           | Inr body \<Rightarrow>
               (case findOne uid d of
                  (user, d1) \<Rightarrow>
                    (case updatedMetadata (merge_flag body) (field body ''metadata'')
                            (metadata_of user) of
                       Inl e \<Rightarrow> (Inl e, d1)
                     | Inr m \<Rightarrow>
                         (Inr (JObj [(''metadata'', m), (''success'', JBool True)]),
                          update_row uid (data_of (JSON_stringify m)) d1)))))"

definition getMetadata :: "user_id option \<Rightarrow> db \<Rightarrow> (error + jsvalue) \<times> db" where
  "getMetadata session d =
     (case authenticated session of
        None \<Rightarrow> (Inl Unauthorized, d)
      | Some uid \<Rightarrow>
          (case findOne uid d of
             (user, d1) \<Rightarrow>
               (case parse_or (metadata_of user) JNull of
                  Inl e \<Rightarrow> (Inl e, d1)
                | Inr m \<Rightarrow> (Inr (JObj [(''metadata'', m)]), d1))))"

text \<open>\<^verbatim>\<open>path.split(".")\<close> throws a \<^verbatim>\<open>TypeError\<close> unless \<^verbatim>\<open>path\<close> is a string.\<close>

fun split_and_set :: "engine \<Rightarrow> jsvalue \<Rightarrow> jsvalue \<Rightarrow> jsvalue \<Rightarrow> error + jsvalue" where
  "split_and_set E tree (JStr path) v = setPath E tree path v"
| "split_and_set E tree p v = Inl TypeError"

definition updateMetadata ::
  "engine \<Rightarrow> user_id option \<Rightarrow> jsvalue option \<Rightarrow> db \<Rightarrow> (error + jsvalue) \<times> db" where
  "updateMetadata E session request d =
     (case authenticated session of
        None \<Rightarrow> (Inl Unauthorized, d)
      | Some uid \<Rightarrow>
          (case read_body request of
             Inl e \<Rightarrow> (Inl e, d)
           | Inr body \<Rightarrow>
               (case findOne uid d of
                  (user, d1) \<Rightarrow>
                    (case parse_or (metadata_of user) (JObj []) of
                       Inl e \<Rightarrow> (Inl e, d1)
                     | Inr tree \<Rightarrow>
                         (case split_and_set E tree (field body ''path'') (field body ''value'') of
                            Inl e \<Rightarrow> (Inl e, d1)
                          | Inr m \<Rightarrow>
                              (Inr (JObj [(''metadata'', m), (''success'', JBool True)]),
                               update_row uid (data_of (JSON_stringify m)) d1))))))"

definition deleteMetadata :: "user_id option \<Rightarrow> db \<Rightarrow> (error + jsvalue) \<times> db" where
  "deleteMetadata session d =
     (case authenticated session of
        None \<Rightarrow> (Inl Unauthorized, d)
      | Some uid \<Rightarrow> (Inr (JObj [(''success'', JBool True)]), update_row uid DataNull d))"

section \<open>An engine for the examples\<close>

text \<open>
  The examples are evaluated with the names of \<^verbatim>\<open>Object.prototype\<close>, which every value
  inherits; \<^verbatim>\<open>__proto__\<close> is the accessor among them. The names that arrays, strings,
  numbers and booleans inherit in addition are not listed, the built-in objects are taken
  to accept every write, and the length conversion is given for numbers, booleans and
  \<^verbatim>\<open>null\<close> only (engines also convert numeric strings and one-element arrays). No example
  uses an unlisted name as a key, walks onto a built-in object or assigns to a length.
\<close>

definition object_prototype_names :: "string list" where
  "object_prototype_names =
     [''constructor'', ''hasOwnProperty'', ''isPrototypeOf'', ''propertyIsEnumerable'',
      ''toLocaleString'', ''toString'', ''valueOf'', ''__defineGetter__'',
      ''__defineSetter__'', ''__lookupGetter__'', ''__lookupSetter__'']"

definition object_prototype :: "jsvalue \<Rightarrow> string \<Rightarrow> inherited" where
  "object_prototype v k =
     (if k = ''__proto__'' then AccessorProperty
      else if k \<in> set object_prototype_names then DataProperty
      else NoProperty)"

fun number_to_length :: "jsvalue \<Rightarrow> nat option" where
  "number_to_length (JNum n) =
     (if 0 \<le> n \<and> n < 4294967296 \<and> of_int \<lfloor>n\<rfloor> = n then Some (nat \<lfloor>n\<rfloor>) else None)"
| "number_to_length JNegZero = Some 0"
| "number_to_length (JBool b) = Some (if b then 1 else 0)"
| "number_to_length JNull = Some 0"
| "number_to_length v = None"

definition example_engine :: engine where
  "example_engine =
     \<lparr>prototype = object_prototype,
      on_builtin = (\<lambda>cur ks v. None),
      to_array_length = number_to_length\<rparr>"

section \<open>Notions used in the statements\<close>

text \<open>The object that a walk through fresh empty objects builds around the value.\<close>

fun nested :: "string list \<Rightarrow> jsvalue \<Rightarrow> jsvalue" where
  "nested [] v = v"
| "nested (k # ks) v = JObj [(k, nested ks v)]"

text \<open>
  A value that \<^verbatim>\<open>JSON.stringify\<close> writes without loss: nowhere in it is there
  \<^verbatim>\<open>undefined\<close>, an infinity or the negative zero.
\<close>

fun lossless :: "jsvalue \<Rightarrow> bool" where
  "lossless JUndefined = False"
| "lossless JNegZero = False"
| "lossless JInfinity = False"
| "lossless JNegInfinity = False"
| "lossless (JArr xs) = list_all lossless xs"
| "lossless (JObj kvs) = list_all (\<lambda>(k, v). lossless v) kvs"
| "lossless v = True"

text \<open>The invariant of the data model, for one row: a stored string parses to an object.\<close>

fun stored_object :: "stored_text option option \<Rightarrow> bool" where
  "stored_object (Some (Some t)) = (case JSON_parse t of Inr v \<Rightarrow> is_object v | Inl e \<Rightarrow> False)"
| "stored_object row = True"

text \<open>A request of \<^verbatim>\<open>setMetadata\<close> whose \<^verbatim>\<open>metadata\<close> field is an object, as its type says.\<close>

fun metadata_is_object :: "jsvalue option \<Rightarrow> bool" where
  "metadata_is_object None = True"
| "metadata_is_object (Some body) = is_object (field body ''metadata'')"

fun is_update :: "call \<Rightarrow> bool" where
  "is_update (Update uid x) = True"
| "is_update (FindOne uid) = False"

definition writes :: "db \<Rightarrow> call list" where
  "writes d = filter is_update (calls d)"

definition reads :: "db \<Rightarrow> call list" where
  "reads d = filter (\<lambda>c. \<not> is_update c) (calls d)"

text \<open>A database with the one user \<^verbatim>\<open>u1\<close>, the given \<^verbatim>\<open>metadata\<close> column, and no call made yet.\<close>

definition db_with :: "stored_text option \<Rightarrow> db" where
  "db_with m = \<lparr>rows = (\<lambda>uid. if uid = ''u1'' then Some m else None), calls = []\<rparr>"

text \<open>The database with the \<^verbatim>\<open>metadata\<close> column of one user set to a given content.\<close>

definition with_column :: "db \<Rightarrow> user_id \<Rightarrow> stored_text option \<Rightarrow> db" where
  "with_column d uid m = d\<lparr>rows := (rows d)(uid := Some m)\<rparr>"

text \<open>The database after one more call to \<^verbatim>\<open>findOne\<close>.\<close>

definition after_read :: "user_id \<Rightarrow> db \<Rightarrow> db" where
  "after_read uid d = snd (findOne uid d)"

text \<open>What a handler passes to \<^verbatim>\<open>ctx.json\<close> after a write.\<close>

definition success_response :: "jsvalue \<Rightarrow> jsvalue" where
  "success_response m = JObj [(''metadata'', m), (''success'', JBool True)]"

text \<open>The data of a write that is the serialization of an object.\<close>

fun serialized_object :: "data \<Rightarrow> bool" where
  "serialized_object (DataText t) = (case JSON_parse t of Inr v \<Rightarrow> is_object v | Inl e \<Rightarrow> False)"
| "serialized_object x = False"

section \<open>Evaluation\<close>

lemmas handler_defs =
  setMetadata_def getMetadata_def updateMetadata_def deleteMetadata_def findOne_def
  update_row_def updatedMetadata_def field_def merge_flag_def data_of_def db_with_def
  after_read_def success_response_def

lemmas walk_defs =
  setPath_def example_engine_def object_prototype_def object_prototype_names_def

lemmas index_defs = array_index_def is_digit_def decimal_value_def digit_value_def

section \<open>The shallow merge\<close>

lemma map_of_define_all:
  "map_of (define_all es acc) k =
     (case map_of (rev es) k of Some v \<Rightarrow> Some v | None \<Rightarrow> map_of acc k)"
  unfolding define_all_def
  by (induction es arbitrary: acc) (auto simp: update_conv' split: option.splits)

lemma map_of_rev_distinct: "distinct (map fst es) \<Longrightarrow> map_of (rev es) k = map_of es k"
proof -
  assume d: "distinct (map fst es)"
  then have "distinct (map fst (rev es))" by (simp add: rev_map [symmetric])
  with d have "map_of (rev es) = map_of es" by (simp add: map_of_inject_set)
  then show ?thesis by simp
qed

text \<open>
  Claim C6. For objects \<open>A\<close> and \<open>B\<close> (their keys distinct, as in every object), the
  object literal \<^verbatim>\<open>{ ...A, ...B }\<close> has under a key of \<open>B\<close> the value that \<open>B\<close> has there,
  whole, also when both values are objects; under any other key it has what \<open>A\<close> has.
\<close>

theorem merge_shallow:
  assumes "distinct (map fst a)" and "distinct (map fst b)"
  shows "own_property (merge (JObj a) (JObj b)) k =
           (case map_of b k of Some v \<Rightarrow> Some v | None \<Rightarrow> map_of a k)"
  using assms
  by (simp add: merge_def map_of_define_all map_of_rev_distinct split: option.splits)

theorem merge_shallow_witness:
  "distinct (map fst [(''p'', JObj [(''x'', JNum 1), (''y'', JNum 2)]), (''q'', JNum 1)])
   \<and> distinct (map fst [(''p'', JObj [(''y'', JNum 3)])])
   \<and> own_property (merge (JObj [(''p'', JObj [(''x'', JNum 1), (''y'', JNum 2)]), (''q'', JNum 1)])
                         (JObj [(''p'', JObj [(''y'', JNum 3)])])) ''p''
       = Some (JObj [(''y'', JNum 3)])
   \<and> own_property (merge (JObj [(''p'', JObj [(''x'', JNum 1), (''y'', JNum 2)]), (''q'', JNum 1)])
                         (JObj [(''p'', JObj [(''y'', JNum 3)])])) ''q''
       = Some (JNum 1)"
  using merge_shallow [of "[(''p'', JObj [(''x'', JNum 1), (''y'', JNum 2)]), (''q'', JNum 1)]"
          "[(''p'', JObj [(''y'', JNum 3)])]" "''p''"]
        merge_shallow [of "[(''p'', JObj [(''x'', JNum 1), (''y'', JNum 2)]), (''q'', JNum 1)]"
          "[(''p'', JObj [(''y'', JNum 3)])]" "''q''"]
  by simp

section \<open>Authentication\<close>

text \<open>
  Claim C5. Each of the four handlers, given no valid caller identity, answers
  \<^verbatim>\<open>UNAUTHORIZED\<close> and leaves the database as it was, its record of calls included: it has
  called neither \<^verbatim>\<open>findOne\<close> nor \<^verbatim>\<open>update\<close>.
\<close>

theorem unauthorized_no_storage:
  assumes "authenticated session = None"
  shows "setMetadata session request d = (Inl Unauthorized, d)
       \<and> getMetadata session d = (Inl Unauthorized, d)
       \<and> updateMetadata E session request d = (Inl Unauthorized, d)
       \<and> deleteMetadata session d = (Inl Unauthorized, d)"
  using assms
  by (simp add: setMetadata_def getMetadata_def updateMetadata_def deleteMetadata_def)

theorem unauthorized_no_storage_witness:
  "authenticated None = None \<and> authenticated (Some '''') = None
   \<and> setMetadata None (Some (JObj [(''metadata'', JObj [])])) (db_with None)
        = (Inl Unauthorized, db_with None)
   \<and> getMetadata (Some '''') (db_with None) = (Inl Unauthorized, db_with None)
   \<and> updateMetadata example_engine None
          (Some (JObj [(''path'', JStr ''a''), (''value'', JNum 1)])) (db_with None)
        = (Inl Unauthorized, db_with None)
   \<and> deleteMetadata (Some '''') (db_with None) = (Inl Unauthorized, db_with None)
   \<and> calls (db_with None) = []"
  using unauthorized_no_storage [of None "Some (JObj [(''metadata'', JObj [])])"
          "db_with None" example_engine]
        unauthorized_no_storage [of "Some ''''" "Some (JObj [(''metadata'', JObj [])])"
          "db_with None" example_engine]
        unauthorized_no_storage [of None "Some (JObj [(''path'', JStr ''a''), (''value'', JNum 1)])"
          "db_with None" example_engine]
  by (simp add: db_with_def)

section \<open>Reading metadata\<close>

text \<open>
  Claim C9. For an authenticated caller, \<^verbatim>\<open>getMetadata\<close> answers \<^verbatim>\<open>{ metadata: null }\<close> when
  the caller has no stored metadata (no row, or a \<^verbatim>\<open>null\<close> column), and it answers the same
  when it runs on the database that \<^verbatim>\<open>deleteMetadata\<close> has left.
\<close>

theorem get_without_metadata:
  assumes "authenticated session = Some uid"
  shows "(metadata_of (rows d uid) = None \<longrightarrow>
            fst (getMetadata session d) = Inr (JObj [(''metadata'', JNull)]))
       \<and> fst (getMetadata session (snd (deleteMetadata session d)))
            = Inr (JObj [(''metadata'', JNull)])"
  using assms
  by (cases "rows d uid")
     (simp_all add: getMetadata_def deleteMetadata_def findOne_def update_row_def)

theorem get_without_metadata_witness:
  "authenticated (Some ''u1'') = Some ''u1''
   \<and> metadata_of (rows (db_with None) ''u1'') = None
   \<and> fst (getMetadata (Some ''u1'') (db_with None)) = Inr (JObj [(''metadata'', JNull)])
   \<and> fst (getMetadata (Some ''u1'')
        (snd (deleteMetadata (Some ''u1'') (db_with (Some (Serialized (JObj [(''a'', JNum 1)])))))))
        = Inr (JObj [(''metadata'', JNull)])
   \<and> fst (getMetadata (Some ''u1'') (db_with (Some (Serialized (JObj [(''a'', JNum 1)])))))
        = Inr (JObj [(''metadata'', JObj [(''a'', JNum 1)])])"
  using get_without_metadata [of "Some ''u1''" "''u1''" "db_with None"]
        get_without_metadata [of "Some ''u1''" "''u1''"
          "db_with (Some (Serialized (JObj [(''a'', JNum 1)])))"]
  by (simp add: db_with_def getMetadata_def findOne_def)

section \<open>Setting metadata without stored metadata\<close>

lemma written_lossless: "lossless v \<Longrightarrow> written v = v"
proof (induction v)
  case (JArr xs)
  then have "\<forall>x\<in>set xs. x \<noteq> JUndefined \<and> written x = x"
    by (auto simp: list_all_iff)
  then have "map (\<lambda>x. if x = JUndefined then JNull else written x) xs = xs"
    by (simp add: map_idI)
  then show ?case by simp
next
  case (JObj kvs)
  then have *: "\<forall>(k, v)\<in>set kvs. v \<noteq> JUndefined \<and> written v = v"
    by (fastforce simp: list_all_iff)
  then have "filter (\<lambda>(k, v). v \<noteq> JUndefined) kvs = kvs"
    by (auto simp: filter_id_conv)
  moreover from * have "map (\<lambda>(k, v). (k, written v)) kvs = kvs"
    by (auto intro!: map_idI)
  ultimately show ?case by simp
qed simp_all

lemma stringify_lossless: "lossless v \<Longrightarrow> JSON_stringify v = Some (Serialized v)"
  by (cases v) (simp_all add: written_lossless del: written.simps)

lemma field_update_other: "k \<noteq> k' \<Longrightarrow> field (JObj (AList.update k' x kvs)) k = field (JObj kvs) k"
  by (simp add: field_def update_conv')

text \<open>
  Claim C7, as the code has it. When the caller has no stored metadata (no row, or a
  \<^verbatim>\<open>null\<close> column), \<^verbatim>\<open>setMetadata\<close> does the same whatever the \<^verbatim>\<open>merge\<close> field says, so in
  merge mode as with \<^verbatim>\<open>merge: false\<close>: it answers with the incoming \<^verbatim>\<open>metadata\<close> as it is and
  writes what \<^verbatim>\<open>JSON.stringify\<close> makes of it. The stored text reads back as the incoming
  value when that value holds no infinity and no negative zero (and no \<^verbatim>\<open>undefined\<close>).
\<close>

theorem merge_without_existing:
  assumes "authenticated session = Some uid" and "metadata_of (rows d uid) = None"
  shows "setMetadata session (Some (JObj kvs)) d
           = setMetadata session (Some (JObj (AList.update ''merge'' (JBool False) kvs))) d
       \<and> setMetadata session (Some (JObj kvs)) d
           = (Inr (success_response (field (JObj kvs) ''metadata'')),
              update_row uid (data_of (JSON_stringify (field (JObj kvs) ''metadata'')))
                (after_read uid d))
       \<and> (field (JObj kvs) ''metadata'' \<noteq> JUndefined \<longrightarrow>
            data_of (JSON_stringify (field (JObj kvs) ''metadata''))
              = DataText (Serialized (written (field (JObj kvs) ''metadata''))))
       \<and> (lossless (field (JObj kvs) ''metadata'') \<longrightarrow>
            data_of (JSON_stringify (field (JObj kvs) ''metadata''))
              = DataText (Serialized (field (JObj kvs) ''metadata'')))"
proof -
  have w: "data_of (JSON_stringify m) = DataText (Serialized (written m))"
    if "m \<noteq> JUndefined" for m
    using that by (cases m) (simp_all add: data_of_def del: written.simps)
  from assms w show ?thesis
    by (simp add: setMetadata_def findOne_def updatedMetadata_def field_update_other
          success_response_def after_read_def stringify_lossless data_of_def
        del: written.simps)
qed

text \<open>
  A number literal beyond the range of a double, such as \<^verbatim>\<open>1e400\<close>, reaches the handler as
  an infinity, and the stored text has \<^verbatim>\<open>null\<close> in its place: the incoming mapping is not
  stored as it is. Likewise \<^verbatim>\<open>-0\<close> is stored as \<^verbatim>\<open>0\<close>.
\<close>

theorem merge_without_existing_counterexample:
  "metadata_of (rows (db_with None) ''u1'') = None
   \<and> truthy (merge_flag (JObj [(''metadata'', JObj [(''a'', JInfinity)]), (''merge'', JBool True)]))
   \<and> fst (setMetadata (Some ''u1'')
        (Some (JObj [(''metadata'', JObj [(''a'', JInfinity)]), (''merge'', JBool True)]))
        (db_with None))
      = Inr (JObj [(''metadata'', JObj [(''a'', JInfinity)]), (''success'', JBool True)])
   \<and> rows (snd (setMetadata (Some ''u1'')
        (Some (JObj [(''metadata'', JObj [(''a'', JInfinity)]), (''merge'', JBool True)]))
        (db_with None))) ''u1''
      = Some (Some (Serialized (JObj [(''a'', JNull)])))
   \<and> JSON_parse (Serialized (JObj [(''a'', JNull)])) \<noteq> Inr (JObj [(''a'', JInfinity)])
   \<and> rows (snd (setMetadata (Some ''u1'')
        (Some (JObj [(''metadata'', JObj [(''a'', JNegZero)]), (''merge'', JBool True)]))
        (db_with None))) ''u1''
      = Some (Some (Serialized (JObj [(''a'', JNum 0)])))"
  by (simp add: handler_defs)

theorem merge_without_existing_witness:
  "authenticated (Some ''u1'') = Some ''u1'' \<and> metadata_of (rows (db_with None) ''u1'') = None
   \<and> truthy (merge_flag (JObj [(''metadata'', JObj [(''theme'', JStr ''dark'')]), (''merge'', JBool True)]))
   \<and> lossless (JObj [(''theme'', JStr ''dark'')])
   \<and> setMetadata (Some ''u1'') (Some (JObj [(''metadata'', JObj [(''theme'', JStr ''dark'')]), (''merge'', JBool True)])) (db_with None)
      = setMetadata (Some ''u1'') (Some (JObj [(''metadata'', JObj [(''theme'', JStr ''dark'')]), (''merge'', JBool False)])) (db_with None)
   \<and> fst (setMetadata (Some ''u1'') (Some (JObj [(''metadata'', JObj [(''theme'', JStr ''dark'')]), (''merge'', JBool True)])) (db_with None))
      = Inr (JObj [(''metadata'', JObj [(''theme'', JStr ''dark'')]), (''success'', JBool True)])
   \<and> rows (snd (setMetadata (Some ''u1'') (Some (JObj [(''metadata'', JObj [(''theme'', JStr ''dark'')]), (''merge'', JBool True)])) (db_with None))) ''u1''
      = Some (Some (Serialized (JObj [(''theme'', JStr ''dark'')])))"
proof -
  let ?kvs = "[(''metadata'', JObj [(''theme'', JStr ''dark'')]), (''merge'', JBool True)]"
  have h1: "authenticated (Some ''u1'') = Some ''u1''" by simp
  have h2: "metadata_of (rows (db_with None) ''u1'') = None" by (simp add: db_with_def)
  note t = merge_without_existing [OF h1 h2, of ?kvs]
  from t have same: "setMetadata (Some ''u1'') (Some (JObj ?kvs)) (db_with None)
      = setMetadata (Some ''u1'') (Some (JObj [(''metadata'', JObj [(''theme'', JStr ''dark'')]), (''merge'', JBool False)])) (db_with None)"
    by simp
  from t have "setMetadata (Some ''u1'') (Some (JObj ?kvs)) (db_with None)
      = (Inr (success_response (field (JObj ?kvs) ''metadata'')),
         update_row ''u1'' (data_of (JSON_stringify (field (JObj ?kvs) ''metadata'')))
           (after_read ''u1'' (db_with None)))"
    by (rule conjunct2 [THEN conjunct1])
  then have res: "fst (setMetadata (Some ''u1'') (Some (JObj ?kvs)) (db_with None))
        = Inr (JObj [(''metadata'', JObj [(''theme'', JStr ''dark'')]), (''success'', JBool True)])"
    and row: "rows (snd (setMetadata (Some ''u1'') (Some (JObj ?kvs)) (db_with None))) ''u1''
        = Some (Some (Serialized (JObj [(''theme'', JStr ''dark'')])))"
    by (simp_all add: db_with_def field_def success_response_def update_row_def after_read_def
          findOne_def data_of_def)
  have flag: "truthy (merge_flag (JObj ?kvs))" by (simp add: merge_flag_def field_def)
  have whole: "lossless (JObj [(''theme'', JStr ''dark'')])" by simp
  from h1 h2 flag whole same res row show ?thesis by blast
qed

section \<open>The outcomes of a handler\<close>

lemma calls_after_read [simp]: "calls (after_read uid d) = calls d @ [FindOne uid]"
  by (simp add: after_read_def findOne_def)

lemma rows_after_read [simp]: "rows (after_read uid d) = rows d"
  by (simp add: after_read_def findOne_def)

lemma calls_update_row [simp]: "calls (update_row uid x d) = calls d @ [Update uid x]"
  by (simp add: update_row_def)

lemma writes_after_read [simp]: "writes (after_read uid d) = writes d"
  by (simp add: writes_def)

lemma writes_update_row [simp]: "writes (update_row uid x d) = writes d @ [Update uid x]"
  by (simp add: writes_def)

lemma setMetadata_outcome:
  assumes "authenticated session = Some uid"
  shows "(\<exists>e. setMetadata session request d = (Inl e, d))
       \<or> (\<exists>e. setMetadata session request d = (Inl e, after_read uid d))
       \<or> (\<exists>m. setMetadata session request d
              = (Inr (success_response m),
                 update_row uid (data_of (JSON_stringify m)) (after_read uid d)))"
  using assms
  by (auto simp: setMetadata_def findOne_def after_read_def success_response_def
      split: sum.splits)

lemma updateMetadata_outcome:
  assumes "authenticated session = Some uid"
  shows "(\<exists>e. updateMetadata E session request d = (Inl e, d))
       \<or> (\<exists>e. updateMetadata E session request d = (Inl e, after_read uid d))
       \<or> (\<exists>m. updateMetadata E session request d
              = (Inr (success_response m),
                 update_row uid (data_of (JSON_stringify m)) (after_read uid d)))"
  using assms
  by (auto simp: updateMetadata_def findOne_def after_read_def success_response_def
      split: sum.splits)

lemma getMetadata_outcome:
  assumes "authenticated session = Some uid"
  shows "(\<exists>e. getMetadata session d = (Inl e, after_read uid d))
       \<or> (\<exists>m. getMetadata session d = (Inr (JObj [(''metadata'', m)]), after_read uid d))"
  using assms
  by (auto simp: getMetadata_def findOne_def after_read_def split: sum.splits)

lemma deleteMetadata_outcome:
  assumes "authenticated session = Some uid"
  shows "deleteMetadata session d
           = (Inr (JObj [(''success'', JBool True)]), update_row uid DataNull d)"
  using assms by (simp add: deleteMetadata_def)

section \<open>Storage calls\<close>

text \<open>
  Claim C3, as the code has it. An authenticated \<^verbatim>\<open>setMetadata\<close> or \<^verbatim>\<open>updateMetadata\<close> that
  completes has called \<^verbatim>\<open>findOne\<close> once and then \<^verbatim>\<open>update\<close> once, both for the caller's id.
  An authenticated \<^verbatim>\<open>deleteMetadata\<close> always completes and calls \<^verbatim>\<open>update\<close> once for the
  caller's id, and nothing else: it does not read.
\<close>

theorem storage_calls:
  assumes "authenticated session = Some uid"
  shows "(fst (setMetadata session request d) = Inr r \<longrightarrow>
            (\<exists>x. calls (snd (setMetadata session request d))
                    = calls d @ [FindOne uid, Update uid x]))
       \<and> (fst (updateMetadata E session request d) = Inr r' \<longrightarrow>
            (\<exists>x. calls (snd (updateMetadata E session request d))
                    = calls d @ [FindOne uid, Update uid x]))
       \<and> fst (deleteMetadata session d) = Inr (JObj [(''success'', JBool True)])
       \<and> calls (snd (deleteMetadata session d)) = calls d @ [Update uid DataNull]"
  using setMetadata_outcome [OF assms, of request d]
        updateMetadata_outcome [OF assms, of E request d]
        deleteMetadata_outcome [OF assms, of d]
  by auto

text \<open>
  The specification asks for one read by \<^verbatim>\<open>deleteMetadata\<close> too; it makes none.
\<close>

theorem storage_calls_counterexample:
  "authenticated (Some ''u1'') = Some ''u1''
   \<and> fst (deleteMetadata (Some ''u1'') (db_with None)) = Inr (JObj [(''success'', JBool True)])
   \<and> calls (snd (deleteMetadata (Some ''u1'') (db_with None))) = [Update ''u1'' DataNull]
   \<and> reads (snd (deleteMetadata (Some ''u1'') (db_with None))) = []"
  by (simp add: handler_defs reads_def)

theorem storage_calls_witness:
  "authenticated (Some ''u1'') = Some ''u1''
   \<and> fst (setMetadata (Some ''u1'') (Some (JObj [(''metadata'', JObj [(''a'', JNum 1)])])) (db_with None))
       = Inr (JObj [(''metadata'', JObj [(''a'', JNum 1)]), (''success'', JBool True)])
   \<and> (\<exists>x. calls (snd (setMetadata (Some ''u1'') (Some (JObj [(''metadata'', JObj [(''a'', JNum 1)])]))
                (db_with None))) = calls (db_with None) @ [FindOne ''u1'', Update ''u1'' x])
   \<and> fst (updateMetadata example_engine (Some ''u1'')
            (Some (JObj [(''path'', JStr ''a''), (''value'', JNum 1)])) (db_with None))
       = Inr (JObj [(''metadata'', JObj [(''a'', JNum 1)]), (''success'', JBool True)])
   \<and> (\<exists>x. calls (snd (updateMetadata example_engine (Some ''u1'')
                (Some (JObj [(''path'', JStr ''a''), (''value'', JNum 1)])) (db_with None)))
             = calls (db_with None) @ [FindOne ''u1'', Update ''u1'' x])
   \<and> calls (snd (deleteMetadata (Some ''u1'') (db_with None)))
       = calls (db_with None) @ [Update ''u1'' DataNull]"
proof -
  have a: "authenticated (Some ''u1'') = Some ''u1''" by simp
  have s: "fst (setMetadata (Some ''u1'') (Some (JObj [(''metadata'', JObj [(''a'', JNum 1)])])) (db_with None))
       = Inr (JObj [(''metadata'', JObj [(''a'', JNum 1)]), (''success'', JBool True)])"
    by (simp add: handler_defs)
  have u: "fst (updateMetadata example_engine (Some ''u1'')
            (Some (JObj [(''path'', JStr ''a''), (''value'', JNum 1)])) (db_with None))
       = Inr (JObj [(''metadata'', JObj [(''a'', JNum 1)]), (''success'', JBool True)])"
    by (simp add: handler_defs walk_defs)
  from storage_calls [OF a, where d = "db_with None"
        and request = "Some (JObj [(''metadata'', JObj [(''a'', JNum 1)])])"
        and r = "JObj [(''metadata'', JObj [(''a'', JNum 1)]), (''success'', JBool True)]"] s
  have s': "\<exists>x. calls (snd (setMetadata (Some ''u1'') (Some (JObj [(''metadata'', JObj [(''a'', JNum 1)])]))
                (db_with None))) = calls (db_with None) @ [FindOne ''u1'', Update ''u1'' x]"
    by blast
  from storage_calls [OF a, where E = example_engine and d = "db_with None"
        and request = "Some (JObj [(''path'', JStr ''a''), (''value'', JNum 1)])"
        and r' = "JObj [(''metadata'', JObj [(''a'', JNum 1)]), (''success'', JBool True)]"] u
  have u': "\<exists>x. calls (snd (updateMetadata example_engine (Some ''u1'')
                (Some (JObj [(''path'', JStr ''a''), (''value'', JNum 1)])) (db_with None)))
             = calls (db_with None) @ [FindOne ''u1'', Update ''u1'' x]"
    and d: "calls (snd (deleteMetadata (Some ''u1'') (db_with None)))
       = calls (db_with None) @ [Update ''u1'' DataNull]"
    by blast+
  from a s s' u u' d show ?thesis by blast
qed

section \<open>Failures write nothing\<close>

text \<open>
  Claim C8, as the code has it. A handler that throws has written nothing: the rows are
  as before and the record of calls has no further \<^verbatim>\<open>update\<close>; a \<^verbatim>\<open>setMetadata\<close>,
  \<^verbatim>\<open>updateMetadata\<close> or \<^verbatim>\<open>deleteMetadata\<close> that completes has made exactly one, and
  \<^verbatim>\<open>getMetadata\<close> never writes. When the stored value is a non-empty string that is not
  valid JSON, \<^verbatim>\<open>setMetadata\<close> in merge mode and \<^verbatim>\<open>updateMetadata\<close> throw the error of
  \<^verbatim>\<open>JSON.parse\<close> after their read and leave the stored value as it is.
\<close>

theorem no_write_on_error:
  "(case fst (setMetadata session request d) of
      Inl e1 \<Rightarrow> rows (snd (setMetadata session request d)) = rows d
                \<and> writes (snd (setMetadata session request d)) = writes d
    | Inr r1 \<Rightarrow> (\<exists>uid x. writes (snd (setMetadata session request d)) = writes d @ [Update uid x]))
   \<and> (case fst (updateMetadata E session request d) of
      Inl e2 \<Rightarrow> rows (snd (updateMetadata E session request d)) = rows d
                \<and> writes (snd (updateMetadata E session request d)) = writes d
    | Inr r2 \<Rightarrow> (\<exists>uid x. writes (snd (updateMetadata E session request d))
                            = writes d @ [Update uid x]))
   \<and> rows (snd (getMetadata session d)) = rows d
   \<and> writes (snd (getMetadata session d)) = writes d
   \<and> (case fst (deleteMetadata session d) of
      Inl e4 \<Rightarrow> rows (snd (deleteMetadata session d)) = rows d
                \<and> writes (snd (deleteMetadata session d)) = writes d
    | Inr r4 \<Rightarrow> (\<exists>uid. writes (snd (deleteMetadata session d)) = writes d @ [Update uid DataNull]))
   \<and> (authenticated session = Some uid \<longrightarrow> rows d uid = Some (Some t) \<longrightarrow> t \<noteq> EmptyText \<longrightarrow>
      JSON_parse t = Inl e \<longrightarrow> read_body request = Inr body \<longrightarrow>
        (truthy (merge_flag body) \<longrightarrow>
           setMetadata session request d = (Inl e, after_read uid d))
        \<and> updateMetadata E session request d = (Inl e, after_read uid d))"
proof -
  have set: "case fst (setMetadata session request d) of
      Inl e1 \<Rightarrow> rows (snd (setMetadata session request d)) = rows d
                \<and> writes (snd (setMetadata session request d)) = writes d
    | Inr r1 \<Rightarrow> (\<exists>uid x. writes (snd (setMetadata session request d)) = writes d @ [Update uid x])"
  proof (cases "authenticated session")
    case None then show ?thesis by (simp add: setMetadata_def)
  next
    case (Some u) from setMetadata_outcome [OF this, of request d] show ?thesis by auto
  qed
  have upd: "case fst (updateMetadata E session request d) of
      Inl e2 \<Rightarrow> rows (snd (updateMetadata E session request d)) = rows d
                \<and> writes (snd (updateMetadata E session request d)) = writes d
    | Inr r2 \<Rightarrow> (\<exists>uid x. writes (snd (updateMetadata E session request d))
                            = writes d @ [Update uid x])"
  proof (cases "authenticated session")
    case None then show ?thesis by (simp add: updateMetadata_def)
  next
    case (Some u) from updateMetadata_outcome [OF this, of E request d] show ?thesis by auto
  qed
  have get: "rows (snd (getMetadata session d)) = rows d
      \<and> writes (snd (getMetadata session d)) = writes d"
  proof (cases "authenticated session")
    case None then show ?thesis by (simp add: getMetadata_def)
  next
    case (Some u) from getMetadata_outcome [OF this, of d] show ?thesis by auto
  qed
  have del: "case fst (deleteMetadata session d) of
      Inl e4 \<Rightarrow> rows (snd (deleteMetadata session d)) = rows d
                \<and> writes (snd (deleteMetadata session d)) = writes d
    | Inr r4 \<Rightarrow> (\<exists>uid. writes (snd (deleteMetadata session d)) = writes d @ [Update uid DataNull])"
  proof (cases "authenticated session")
    case None then show ?thesis by (simp add: deleteMetadata_def)
  next
    case (Some u) from deleteMetadata_outcome [OF this, of d] show ?thesis by auto
  qed
  have bad: "authenticated session = Some uid \<longrightarrow> rows d uid = Some (Some t) \<longrightarrow> t \<noteq> EmptyText \<longrightarrow>
      JSON_parse t = Inl e \<longrightarrow> read_body request = Inr body \<longrightarrow>
        (truthy (merge_flag body) \<longrightarrow>
           setMetadata session request d = (Inl e, after_read uid d))
        \<and> updateMetadata E session request d = (Inl e, after_read uid d)"
    by (cases t)
       (simp_all add: setMetadata_def updateMetadata_def findOne_def after_read_def
          updatedMetadata_def)
  from set upd get del bad show ?thesis by blast
qed

text \<open>
  The empty string is stored, is not valid JSON, and yet both handlers complete and
  overwrite it.
\<close>

theorem no_write_on_error_counterexample:
  "rows (db_with (Some EmptyText)) ''u1'' = Some (Some EmptyText)
   \<and> JSON_parse EmptyText = Inl SyntaxError
   \<and> truthy (merge_flag (JObj [(''metadata'', JObj [(''a'', JNum 1)]), (''merge'', JBool True)]))
   \<and> fst (setMetadata (Some ''u1'')
        (Some (JObj [(''metadata'', JObj [(''a'', JNum 1)]), (''merge'', JBool True)]))
        (db_with (Some EmptyText)))
      = Inr (JObj [(''metadata'', JObj [(''a'', JNum 1)]), (''success'', JBool True)])
   \<and> rows (snd (setMetadata (Some ''u1'')
        (Some (JObj [(''metadata'', JObj [(''a'', JNum 1)]), (''merge'', JBool True)]))
        (db_with (Some EmptyText)))) ''u1''
      = Some (Some (Serialized (JObj [(''a'', JNum 1)])))
   \<and> fst (updateMetadata example_engine (Some ''u1'')
        (Some (JObj [(''path'', JStr ''a''), (''value'', JNum 1)])) (db_with (Some EmptyText)))
      = Inr (JObj [(''metadata'', JObj [(''a'', JNum 1)]), (''success'', JBool True)])
   \<and> rows (snd (updateMetadata example_engine (Some ''u1'')
        (Some (JObj [(''path'', JStr ''a''), (''value'', JNum 1)])) (db_with (Some EmptyText)))) ''u1''
      = Some (Some (Serialized (JObj [(''a'', JNum 1)])))"
  by (simp add: handler_defs walk_defs)

theorem no_write_on_error_witness:
  "authenticated (Some ''u1'') = Some ''u1''
   \<and> rows (db_with (Some Malformed)) ''u1'' = Some (Some Malformed) \<and> Malformed \<noteq> EmptyText
   \<and> JSON_parse Malformed = Inl SyntaxError
   \<and> read_body (Some (JObj [(''metadata'', JObj [(''a'', JNum 1)]), (''path'', JStr ''a'')]))
       = Inr (JObj [(''metadata'', JObj [(''a'', JNum 1)]), (''path'', JStr ''a'')])
   \<and> truthy (merge_flag (JObj [(''metadata'', JObj [(''a'', JNum 1)]), (''path'', JStr ''a'')]))
   \<and> setMetadata (Some ''u1'')
        (Some (JObj [(''metadata'', JObj [(''a'', JNum 1)]), (''path'', JStr ''a'')]))
        (db_with (Some Malformed))
      = (Inl SyntaxError, after_read ''u1'' (db_with (Some Malformed)))
   \<and> updateMetadata example_engine (Some ''u1'')
        (Some (JObj [(''metadata'', JObj [(''a'', JNum 1)]), (''path'', JStr ''a'')]))
        (db_with (Some Malformed))
      = (Inl SyntaxError, after_read ''u1'' (db_with (Some Malformed)))
   \<and> rows (after_read ''u1'' (db_with (Some Malformed))) = rows (db_with (Some Malformed))
   \<and> writes (after_read ''u1'' (db_with (Some Malformed))) = []"
proof -
  let ?body = "JObj [(''metadata'', JObj [(''a'', JNum 1)]), (''path'', JStr ''a'')]"
  have a: "authenticated (Some ''u1'') = Some ''u1''" by simp
  have r: "rows (db_with (Some Malformed)) ''u1'' = Some (Some Malformed)"
    by (simp add: db_with_def)
  have n: "Malformed \<noteq> EmptyText" by simp
  have p: "JSON_parse Malformed = Inl SyntaxError" by simp
  have b: "read_body (Some ?body) = Inr ?body" by simp
  have m: "truthy (merge_flag ?body)" by (simp add: merge_flag_def field_def)
  from no_write_on_error [where session = "Some ''u1''" and request = "Some ?body"
        and d = "db_with (Some Malformed)" and E = example_engine and uid = "''u1''"
        and t = Malformed and e = SyntaxError and body = ?body] a r n p b m
  have "setMetadata (Some ''u1'') (Some ?body) (db_with (Some Malformed))
          = (Inl SyntaxError, after_read ''u1'' (db_with (Some Malformed)))"
    and "updateMetadata example_engine (Some ''u1'') (Some ?body) (db_with (Some Malformed))
          = (Inl SyntaxError, after_read ''u1'' (db_with (Some Malformed)))"
    by blast+
  moreover have "writes (after_read ''u1'' (db_with (Some Malformed))) = []"
    by (simp add: writes_def db_with_def)
  ultimately show ?thesis using a r n p b m by simp
qed

section \<open>The empty string in the column\<close>

text \<open>
  Claim C10. With the empty string stored for a user, \<^verbatim>\<open>getMetadata\<close>, \<^verbatim>\<open>setMetadata\<close> and
  \<^verbatim>\<open>updateMetadata\<close> answer and call the adapter exactly as with \<^verbatim>\<open>null\<close> stored there:
  \<^verbatim>\<open>getMetadata\<close> answers \<^verbatim>\<open>{ metadata: null }\<close>, \<^verbatim>\<open>setMetadata\<close> answers with the incoming
  metadata whatever \<^verbatim>\<open>merge\<close> is, and \<^verbatim>\<open>updateMetadata\<close> walks from the empty object.
  (\<^verbatim>\<open>deleteMetadata\<close> does not look at the column: it leaves the same database in both
  cases.)
\<close>

theorem empty_string_as_absent:
  "fst (getMetadata session (with_column d uid (Some EmptyText)))
     = fst (getMetadata session (with_column d uid None))
   \<and> calls (snd (getMetadata session (with_column d uid (Some EmptyText))))
     = calls (snd (getMetadata session (with_column d uid None)))
   \<and> fst (setMetadata session request (with_column d uid (Some EmptyText)))
     = fst (setMetadata session request (with_column d uid None))
   \<and> calls (snd (setMetadata session request (with_column d uid (Some EmptyText))))
     = calls (snd (setMetadata session request (with_column d uid None)))
   \<and> fst (updateMetadata E session request (with_column d uid (Some EmptyText)))
     = fst (updateMetadata E session request (with_column d uid None))
   \<and> calls (snd (updateMetadata E session request (with_column d uid (Some EmptyText))))
     = calls (snd (updateMetadata E session request (with_column d uid None)))
   \<and> fst (deleteMetadata session (with_column d uid (Some EmptyText)))
     = fst (deleteMetadata session (with_column d uid None))
   \<and> calls (snd (deleteMetadata session (with_column d uid (Some EmptyText))))
     = calls (snd (deleteMetadata session (with_column d uid None)))
   \<and> (authenticated session = Some uid \<longrightarrow>
        deleteMetadata session (with_column d uid (Some EmptyText))
          = deleteMetadata session (with_column d uid None))
   \<and> (authenticated session = Some uid \<longrightarrow>
        fst (getMetadata session (with_column d uid (Some EmptyText)))
          = Inr (JObj [(''metadata'', JNull)]))
   \<and> (authenticated session = Some uid \<longrightarrow> read_body request = Inr body \<longrightarrow>
        fst (setMetadata session request (with_column d uid (Some EmptyText)))
          = Inr (success_response (field body ''metadata'')))
   \<and> (authenticated session = Some uid \<longrightarrow> read_body request = Inr body \<longrightarrow>
        fst (updateMetadata E session request (with_column d uid (Some EmptyText)))
          = (case split_and_set E (JObj []) (field body ''path'') (field body ''value'') of
               Inl e \<Rightarrow> Inl e
             | Inr m \<Rightarrow> Inr (success_response m)))"
  by (auto simp: getMetadata_def setMetadata_def updateMetadata_def deleteMetadata_def
        with_column_def findOne_def updatedMetadata_def update_row_def success_response_def
      split: option.splits sum.splits)

theorem empty_string_as_absent_witness:
  "authenticated (Some ''u1'') = Some ''u1''
   \<and> rows (with_column (db_with None) ''u1'' (Some EmptyText)) ''u1'' = Some (Some EmptyText)
   \<and> read_body (Some (JObj [(''metadata'', JObj [(''a'', JNum 1)]), (''merge'', JBool True),
                             (''path'', JStr ''a.b''), (''value'', JNum 5)]))
       = Inr (JObj [(''metadata'', JObj [(''a'', JNum 1)]), (''merge'', JBool True),
                    (''path'', JStr ''a.b''), (''value'', JNum 5)])
   \<and> fst (getMetadata (Some ''u1'') (with_column (db_with None) ''u1'' (Some EmptyText)))
       = Inr (JObj [(''metadata'', JNull)])
   \<and> fst (setMetadata (Some ''u1'')
            (Some (JObj [(''metadata'', JObj [(''a'', JNum 1)]), (''merge'', JBool True),
                         (''path'', JStr ''a.b''), (''value'', JNum 5)]))
            (with_column (db_with None) ''u1'' (Some EmptyText)))
       = Inr (JObj [(''metadata'', JObj [(''a'', JNum 1)]), (''success'', JBool True)])
   \<and> fst (updateMetadata example_engine (Some ''u1'')
            (Some (JObj [(''metadata'', JObj [(''a'', JNum 1)]), (''merge'', JBool True),
                         (''path'', JStr ''a.b''), (''value'', JNum 5)]))
            (with_column (db_with None) ''u1'' (Some EmptyText)))
       = Inr (JObj [(''metadata'', JObj [(''a'', JObj [(''b'', JNum 5)])]), (''success'', JBool True)])"
proof -
  let ?body = "JObj [(''metadata'', JObj [(''a'', JNum 1)]), (''merge'', JBool True),
                     (''path'', JStr ''a.b''), (''value'', JNum 5)]"
  have a: "authenticated (Some ''u1'') = Some ''u1''" by simp
  have b: "read_body (Some ?body) = Inr ?body" by simp
  have r: "rows (with_column (db_with None) ''u1'' (Some EmptyText)) ''u1'' = Some (Some EmptyText)"
    by (simp add: with_column_def)
  note t = empty_string_as_absent [where session = "Some ''u1''" and d = "db_with None"
             and uid = "''u1''" and request = "Some ?body" and E = example_engine
             and body = ?body]
  from t a have g: "fst (getMetadata (Some ''u1'') (with_column (db_with None) ''u1'' (Some EmptyText)))
       = Inr (JObj [(''metadata'', JNull)])"
    by blast
  from t a b have "fst (setMetadata (Some ''u1'') (Some ?body)
            (with_column (db_with None) ''u1'' (Some EmptyText)))
       = Inr (success_response (field ?body ''metadata''))"
    by blast
  then have s: "fst (setMetadata (Some ''u1'') (Some ?body)
            (with_column (db_with None) ''u1'' (Some EmptyText)))
       = Inr (JObj [(''metadata'', JObj [(''a'', JNum 1)]), (''success'', JBool True)])"
    by (simp add: success_response_def field_def)
  from t a b have "fst (updateMetadata example_engine (Some ''u1'') (Some ?body)
            (with_column (db_with None) ''u1'' (Some EmptyText)))
       = (case split_and_set example_engine (JObj []) (field ?body ''path'') (field ?body ''value'') of
               Inl e \<Rightarrow> Inl e
             | Inr m \<Rightarrow> Inr (success_response m))"
    by blast
  then have u: "fst (updateMetadata example_engine (Some ''u1'') (Some ?body)
            (with_column (db_with None) ''u1'' (Some EmptyText)))
       = Inr (JObj [(''metadata'', JObj [(''a'', JObj [(''b'', JNum 5)])]), (''success'', JBool True)])"
    by (simp add: success_response_def field_def walk_defs)
  from a r b g s u show ?thesis by blast
qed

section \<open>The stored value stays an object\<close>

lemma walk_object: "walk E (JObj kvs) ks v = Inr m \<Longrightarrow> is_object m"
proof (cases ks)
  case Nil
  then show "walk E (JObj kvs) ks v = Inr m \<Longrightarrow> is_object m"
    by (auto split: if_splits)
next
  case (Cons k ks')
  then show "walk E (JObj kvs) ks v = Inr m \<Longrightarrow> is_object m"
    by (cases ks') (auto split: if_splits option.splits sum.splits lookup.splits)
qed

lemma split_and_set_object: "split_and_set E (JObj kvs) p v = Inr m \<Longrightarrow> is_object m"
  by (cases p) (auto simp: setPath_def dest: walk_object)

lemma stringify_object: "is_object m \<Longrightarrow> serialized_object (data_of (JSON_stringify m))"
  by (cases m) (simp_all add: data_of_def)

lemma updatedMetadata_object:
  "updatedMetadata f new stored = Inr m \<Longrightarrow> is_object new \<Longrightarrow> is_object m"
  by (auto simp: updatedMetadata_def merge_def split: option.splits if_splits sum.splits)

lemma stored_object_set_column:
  "serialized_object x \<Longrightarrow> stored_object (Some (set_column x old))"
  by (cases x) simp_all

lemma rows_update_row:
  "rows (update_row uid x d) u =
     (if u = uid \<and> rows d uid \<noteq> None then Some (set_column x (the (rows d uid))) else rows d u)"
  by (auto simp: update_row_def split: option.splits)

lemma parse_or_object:
  "stored_object (Some m) \<Longrightarrow> parse_or m (JObj []) = Inr tree \<Longrightarrow> is_object tree"
  by (cases m; cases "the m") (auto split: sum.splits)

lemma setMetadata_writes_object:
  assumes "metadata_is_object request"
  shows "snd (setMetadata session request d) = d
       \<or> (\<exists>uid. snd (setMetadata session request d) = after_read uid d)
       \<or> (\<exists>uid x. serialized_object x
             \<and> snd (setMetadata session request d) = update_row uid x (after_read uid d))"
proof (cases "authenticated session")
  case None
  then show ?thesis by (simp add: setMetadata_def)
next
  case (Some uid)
  show ?thesis
  proof (cases "read_body request")
    case (Inl e)
    with Some show ?thesis by (simp add: setMetadata_def)
  next
    case (Inr body)
    then have req: "request = Some body" by (cases request) (auto elim: read_body.elims)
    with assms have obj: "is_object (field body ''metadata'')" by simp
    show ?thesis
    proof (cases "updatedMetadata (merge_flag body) (field body ''metadata'') (metadata_of (rows d uid))")
      case (Inl e)
      with Some Inr show ?thesis
        by (auto simp: setMetadata_def findOne_def after_read_def)
    next
      case (Inr m)
      from updatedMetadata_object [OF this obj] have "serialized_object (data_of (JSON_stringify m))"
        by (rule stringify_object)
      with Some \<open>read_body request = Inr body\<close> Inr show ?thesis
        by (auto simp: setMetadata_def findOne_def after_read_def)
    qed
  qed
qed

lemma updateMetadata_writes_object:
  assumes "\<forall>u. stored_object (rows d u)"
  shows "snd (updateMetadata E session request d) = d
       \<or> (\<exists>uid. snd (updateMetadata E session request d) = after_read uid d)
       \<or> (\<exists>uid x. serialized_object x
             \<and> snd (updateMetadata E session request d) = update_row uid x (after_read uid d))"
proof (cases "authenticated session")
  case None
  then show ?thesis by (simp add: updateMetadata_def)
next
  case (Some uid)
  show ?thesis
  proof (cases "read_body request")
    case (Inl e)
    with Some show ?thesis by (simp add: updateMetadata_def)
  next
    case body: (Inr body)
    show ?thesis
    proof (cases "parse_or (metadata_of (rows d uid)) (JObj [])")
      case (Inl e)
      with Some body show ?thesis
        by (auto simp: updateMetadata_def findOne_def after_read_def)
    next
      case tree: (Inr tree)
      from assms have "stored_object (rows d uid)" by simp
      with tree have "is_object tree"
        by (cases "rows d uid") (auto dest: parse_or_object)
      then obtain kvs where kvs: "tree = JObj kvs" by (cases tree) auto
      show ?thesis
      proof (cases "split_and_set E tree (field body ''path'') (field body ''value'')")
        case (Inl e)
        with Some body tree show ?thesis
          by (auto simp: updateMetadata_def findOne_def after_read_def)
      next
        case (Inr m)
        with kvs have "is_object m" by (auto dest: split_and_set_object)
        then have "serialized_object (data_of (JSON_stringify m))" by (rule stringify_object)
        with Some body tree Inr show ?thesis
          by (auto simp: updateMetadata_def findOne_def after_read_def)
      qed
    qed
  qed
qed

lemma stored_object_after:
  assumes inv: "\<forall>u. stored_object (rows d u)"
    and d': "d' = d \<or> (\<exists>uid. d' = after_read uid d)
       \<or> (\<exists>uid x. serialized_object x \<and> d' = update_row uid x (after_read uid d))"
  shows "stored_object (rows d' u)"
  using inv d' by (auto simp: rows_update_row after_read_def findOne_def stored_object_set_column)

lemma writes_after:
  assumes "d' = d \<or> (\<exists>uid. d' = after_read uid d)
       \<or> (\<exists>uid x. serialized_object x \<and> d' = update_row uid x (after_read uid d))"
  shows "writes d' = writes d \<or> (\<exists>uid x. serialized_object x \<and> writes d' = writes d @ [Update uid x])"
  using assms by (auto simp: writes_def update_row_def after_read_def findOne_def)

text \<open>
  Claim C4, as the code has it. Suppose every stored string parses to an object. Then the
  same holds after any of the four handlers has run, and every write of \<^verbatim>\<open>setMetadata\<close> and
  \<^verbatim>\<open>updateMetadata\<close> is the serialization of an object, provided that the \<^verbatim>\<open>metadata\<close> field
  of a \<^verbatim>\<open>setMetadata\<close> request is an object: the handler stores that field as it comes.
\<close>

theorem invariant_preserved:
  assumes "\<forall>u. stored_object (rows d u)"
  shows "(metadata_is_object request \<longrightarrow>
            (\<forall>u. stored_object (rows (snd (setMetadata session request d)) u))
            \<and> (writes (snd (setMetadata session request d)) = writes d
               \<or> (\<exists>uid x. serialized_object x
                     \<and> writes (snd (setMetadata session request d)) = writes d @ [Update uid x])))
       \<and> (\<forall>u. stored_object (rows (snd (updateMetadata E session request d)) u))
       \<and> (writes (snd (updateMetadata E session request d)) = writes d
               \<or> (\<exists>uid x. serialized_object x
                     \<and> writes (snd (updateMetadata E session request d)) = writes d @ [Update uid x]))
       \<and> (\<forall>u. stored_object (rows (snd (getMetadata session d)) u))
       \<and> (\<forall>u. stored_object (rows (snd (deleteMetadata session d)) u))"
proof -
  have set: "metadata_is_object request \<longrightarrow>
            (\<forall>u. stored_object (rows (snd (setMetadata session request d)) u))
            \<and> (writes (snd (setMetadata session request d)) = writes d
               \<or> (\<exists>uid x. serialized_object x
                     \<and> writes (snd (setMetadata session request d)) = writes d @ [Update uid x]))"
    using stored_object_after [OF assms setMetadata_writes_object [of request session d]]
          writes_after [OF setMetadata_writes_object [of request session d]]
    by blast
  have upd: "(\<forall>u. stored_object (rows (snd (updateMetadata E session request d)) u))
       \<and> (writes (snd (updateMetadata E session request d)) = writes d
               \<or> (\<exists>uid x. serialized_object x
                     \<and> writes (snd (updateMetadata E session request d)) = writes d @ [Update uid x]))"
    using stored_object_after [OF assms updateMetadata_writes_object [OF assms, of E session request]]
          writes_after [OF updateMetadata_writes_object [OF assms, of E session request]]
    by blast
  have get: "\<forall>u. stored_object (rows (snd (getMetadata session d)) u)"
    using assms
    by (auto simp: getMetadata_def findOne_def split: option.splits sum.splits)
  have del: "\<forall>u. stored_object (rows (snd (deleteMetadata session d)) u)"
    using assms
    by (auto simp: deleteMetadata_def rows_update_row split: option.splits)
  from set upd get del show ?thesis by blast
qed

text \<open>
  Without that proviso the invariant is lost: \<^verbatim>\<open>setMetadata\<close> stores an array in
  replacement mode, and a number in merge mode when nothing is stored yet.
\<close>

theorem invariant_preserved_counterexample:
  "rows (db_with None) ''u1'' = Some None
   \<and> rows (snd (setMetadata (Some ''u1'')
        (Some (JObj [(''metadata'', JArr [JNum 1, JNum 2]), (''merge'', JBool False)]))
        (db_with None))) ''u1''
      = Some (Some (Serialized (JArr [JNum 1, JNum 2])))
   \<and> JSON_parse (Serialized (JArr [JNum 1, JNum 2])) = Inr (JArr [JNum 1, JNum 2])
   \<and> \<not> is_object (JArr [JNum 1, JNum 2])
   \<and> rows (snd (setMetadata (Some ''u1'')
        (Some (JObj [(''metadata'', JNum 5), (''merge'', JBool True)]))
        (db_with None))) ''u1''
      = Some (Some (Serialized (JNum 5)))
   \<and> JSON_parse (Serialized (JNum 5)) = Inr (JNum 5)
   \<and> \<not> is_object (JNum 5)"
  by (simp add: handler_defs)

theorem invariant_preserved_witness:
  "(\<forall>u. stored_object (rows (db_with (Some (Serialized (JObj [(''theme'', JStr ''dark'')])))) u))
   \<and> metadata_is_object (Some (JObj [(''metadata'', JObj [(''lang'', JStr ''en'')]),
        (''path'', JStr ''prefs.lang''), (''value'', JStr ''en'')]))
   \<and> (\<forall>u. stored_object (rows (snd (setMetadata (Some ''u1'')
        (Some (JObj [(''metadata'', JObj [(''lang'', JStr ''en'')]),
           (''path'', JStr ''prefs.lang''), (''value'', JStr ''en'')]))
        (db_with (Some (Serialized (JObj [(''theme'', JStr ''dark'')])))))) u))
   \<and> rows (snd (setMetadata (Some ''u1'')
        (Some (JObj [(''metadata'', JObj [(''lang'', JStr ''en'')]),
           (''path'', JStr ''prefs.lang''), (''value'', JStr ''en'')]))
        (db_with (Some (Serialized (JObj [(''theme'', JStr ''dark'')])))))) ''u1''
      = Some (Some (Serialized (JObj [(''theme'', JStr ''dark''), (''lang'', JStr ''en'')])))
   \<and> (\<forall>u. stored_object (rows (snd (updateMetadata example_engine (Some ''u1'')
        (Some (JObj [(''metadata'', JObj [(''lang'', JStr ''en'')]),
           (''path'', JStr ''prefs.lang''), (''value'', JStr ''en'')]))
        (db_with (Some (Serialized (JObj [(''theme'', JStr ''dark'')])))))) u))
   \<and> rows (snd (updateMetadata example_engine (Some ''u1'')
        (Some (JObj [(''metadata'', JObj [(''lang'', JStr ''en'')]),
           (''path'', JStr ''prefs.lang''), (''value'', JStr ''en'')]))
        (db_with (Some (Serialized (JObj [(''theme'', JStr ''dark'')])))))) ''u1''
      = Some (Some (Serialized (JObj [(''theme'', JStr ''dark''),
                                      (''prefs'', JObj [(''lang'', JStr ''en'')])])))"
proof -
  let ?d = "db_with (Some (Serialized (JObj [(''theme'', JStr ''dark'')])))"
  let ?req = "Some (JObj [(''metadata'', JObj [(''lang'', JStr ''en'')]),
           (''path'', JStr ''prefs.lang''), (''value'', JStr ''en'')])"
  have inv: "\<forall>u. stored_object (rows ?d u)" by (simp add: db_with_def)
  have typed: "metadata_is_object ?req" by (simp add: field_def)
  note t = invariant_preserved [OF inv, where request = ?req and session = "Some ''u1''"
             and E = example_engine]
  from t typed have s: "\<forall>u. stored_object (rows (snd (setMetadata (Some ''u1'') ?req ?d)) u)"
    by blast
  from t have u: "\<forall>u. stored_object (rows (snd (updateMetadata example_engine (Some ''u1'') ?req ?d)) u)"
    by blast
  have s': "rows (snd (setMetadata (Some ''u1'') ?req ?d)) ''u1''
      = Some (Some (Serialized (JObj [(''theme'', JStr ''dark''), (''lang'', JStr ''en'')])))"
    by (simp add: handler_defs merge_def define_all_def)
  have u': "rows (snd (updateMetadata example_engine (Some ''u1'') ?req ?d)) ''u1''
      = Some (Some (Serialized (JObj [(''theme'', JStr ''dark''),
                                      (''prefs'', JObj [(''lang'', JStr ''en'')])])))"
    by (simp add: handler_defs walk_defs)
  from inv typed s s' u u' show ?thesis by blast
qed

section \<open>A missing or empty path\<close>

text \<open>
  Claim C2, as the code has it. Take an authenticated \<^verbatim>\<open>updateMetadata\<close> whose body can be
  read and whose stored value is absent, empty or parses. If the body has no \<^verbatim>\<open>path\<close>, the
  handler throws a \<^verbatim>\<open>TypeError\<close> after its read and writes nothing. If \<^verbatim>\<open>path\<close> is the empty
  string and the stored value is an object (or absent), the handler completes: it sets the
  property named by the empty string and stores and answers the result. (The proviso on
  the engine says that the empty key is not an inherited setter.)
\<close>

theorem update_path_absent_or_empty:
  assumes "authenticated session = Some uid"
    and "read_body request = Inr body"
    and "parse_or (metadata_of (rows d uid)) (JObj []) = Inr tree"
  shows "(field body ''path'' = JUndefined \<longrightarrow>
            updateMetadata E session request d = (Inl TypeError, after_read uid d))
       \<and> (field body ''path'' = JStr [] \<longrightarrow> tree = JObj kvs \<longrightarrow>
            (map_of kvs [] \<noteq> None \<or> prototype E (JObj kvs) [] \<noteq> AccessorProperty) \<longrightarrow>
            updateMetadata E session request d
              = (Inr (success_response (JObj (AList.update [] (field body ''value'') kvs))),
                 update_row uid
                   (data_of (JSON_stringify (JObj (AList.update [] (field body ''value'') kvs))))
                   (after_read uid d)))"
  using assms
  by (auto simp: updateMetadata_def findOne_def after_read_def setPath_def success_response_def)

text \<open>
  The empty path does not fail, and the missing path fails with a \<^verbatim>\<open>TypeError\<close>; the
  code has no error for an invalid argument.
\<close>

theorem update_path_absent_or_empty_counterexample:
  "fst (updateMetadata example_engine (Some ''u1'')
         (Some (JObj [(''path'', JStr ''''), (''value'', JNum 1)])) (db_with None))
     = Inr (JObj [(''metadata'', JObj [('''', JNum 1)]), (''success'', JBool True)])
   \<and> rows (snd (updateMetadata example_engine (Some ''u1'')
         (Some (JObj [(''path'', JStr ''''), (''value'', JNum 1)])) (db_with None))) ''u1''
     = Some (Some (Serialized (JObj [('''', JNum 1)])))
   \<and> fst (updateMetadata example_engine (Some ''u1'')
         (Some (JObj [(''value'', JNum 1)])) (db_with None))
     = Inl TypeError"
  by (simp add: handler_defs walk_defs)

theorem update_path_absent_or_empty_witness:
  "authenticated (Some ''u1'') = Some ''u1''
   \<and> read_body (Some (JObj [(''value'', JNum 1)])) = Inr (JObj [(''value'', JNum 1)])
   \<and> read_body (Some (JObj [(''path'', JStr ''''), (''value'', JNum 1)]))
        = Inr (JObj [(''path'', JStr ''''), (''value'', JNum 1)])
   \<and> parse_or (metadata_of (rows (db_with (Some (Serialized (JObj [(''a'', JNum 2)])))) ''u1''))
        (JObj []) = Inr (JObj [(''a'', JNum 2)])
   \<and> field (JObj [(''value'', JNum 1)]) ''path'' = JUndefined
   \<and> field (JObj [(''path'', JStr ''''), (''value'', JNum 1)]) ''path'' = JStr []
   \<and> prototype example_engine (JObj [(''a'', JNum 2)]) [] \<noteq> AccessorProperty
   \<and> updateMetadata example_engine (Some ''u1'') (Some (JObj [(''value'', JNum 1)]))
        (db_with (Some (Serialized (JObj [(''a'', JNum 2)]))))
      = (Inl TypeError, after_read ''u1'' (db_with (Some (Serialized (JObj [(''a'', JNum 2)])))))
   \<and> fst (updateMetadata example_engine (Some ''u1'')
        (Some (JObj [(''path'', JStr ''''), (''value'', JNum 1)]))
        (db_with (Some (Serialized (JObj [(''a'', JNum 2)])))))
      = Inr (JObj [(''metadata'', JObj [(''a'', JNum 2), ('''', JNum 1)]), (''success'', JBool True)])"
proof -
  let ?d = "db_with (Some (Serialized (JObj [(''a'', JNum 2)])))"
  let ?b1 = "JObj [(''value'', JNum 1)]"
  let ?b2 = "JObj [(''path'', JStr ''''), (''value'', JNum 1)]"
  have a: "authenticated (Some ''u1'') = Some ''u1''" by simp
  have r1: "read_body (Some ?b1) = Inr ?b1" and r2: "read_body (Some ?b2) = Inr ?b2" by simp_all
  have p: "parse_or (metadata_of (rows ?d ''u1'')) (JObj []) = Inr (JObj [(''a'', JNum 2)])"
    by (simp add: db_with_def)
  have f1: "field ?b1 ''path'' = JUndefined" and f2: "field ?b2 ''path'' = JStr []"
    by (simp_all add: field_def)
  have e: "prototype example_engine (JObj [(''a'', JNum 2)]) [] \<noteq> AccessorProperty"
    by (simp add: walk_defs)
  from update_path_absent_or_empty [OF a r1 p, where E = example_engine] f1
  have t1: "updateMetadata example_engine (Some ''u1'') (Some ?b1) ?d
      = (Inl TypeError, after_read ''u1'' ?d)"
    by blast
  from update_path_absent_or_empty [OF a r2 p, where E = example_engine
        and kvs = "[(''a'', JNum 2)]"] f2 e
  have "updateMetadata example_engine (Some ''u1'') (Some ?b2) ?d
      = (Inr (success_response (JObj (AList.update [] (field ?b2 ''value'') [(''a'', JNum 2)]))),
         update_row ''u1''
           (data_of (JSON_stringify (JObj (AList.update [] (field ?b2 ''value'') [(''a'', JNum 2)]))))
           (after_read ''u1'' ?d))"
    by blast
  then have t2: "fst (updateMetadata example_engine (Some ''u1'') (Some ?b2) ?d)
      = Inr (JObj [(''metadata'', JObj [(''a'', JNum 2), ('''', JNum 1)]), (''success'', JBool True)])"
    by (simp add: success_response_def field_def)
  from a r1 r2 p f1 f2 e t1 t2 show ?thesis by blast
qed

section \<open>A scalar on the path\<close>

lemma walk_fresh:
  assumes "ks \<noteq> []" and "\<forall>k\<in>set ks. prototype E (JObj []) k = NoProperty"
  shows "walk E (JObj []) ks v = Inr (nested ks v)"
  using assms
proof (induction ks rule: list_nonempty_induct)
  case (single k)
  then show ?case by simp
next
  case (cons k ks)
  then obtain k' ks' where ks: "ks = k' # ks'" by (cases ks) auto
  from cons have "walk E (JObj []) ks v = Inr (nested ks v)" by simp
  with cons.prems show ?case unfolding ks by simp
qed

lemma own_property_primitive:
  assumes "own_property c k = Some c'" and "is_primitive c" and "truthy c"
  shows "is_primitive c' \<and> truthy c'"
  using assms by (cases c) (auto split: option.splits if_splits)

lemma walk_primitive:
  assumes "ks \<noteq> []" and "is_primitive c" and "truthy c"
    and "\<forall>k\<in>set ks. \<forall>p. is_primitive p \<longrightarrow> prototype E p k = NoProperty"
  shows "walk E c ks v = Inl TypeError"
  using assms
proof (induction ks arbitrary: c rule: list_nonempty_induct)
  case (single k)
  then show ?case by (cases c) auto
next
  case (cons k ks)
  then obtain k' ks' where ks: "ks = k' # ks'" by (cases ks) auto
  from cons.prems have proto: "prototype E c k = NoProperty" by simp
  show ?case
  proof (cases "own_property c k")
    case None
    with cons.prems(1) proto show ?thesis unfolding ks by (cases c) auto
  next
    case (Some c')
    from own_property_primitive [OF Some cons.prems(1,2)]
    have c': "is_primitive c'" "truthy c'" by simp_all
    with cons.prems have "walk E c' ks v = Inl TypeError" by (intro cons.IH) simp_all
    with Some c' cons.prems(1) show ?thesis unfolding ks by (cases c) auto
  qed
qed

text \<open>
  Claim C1, as the code has it. Let the walk stand at a value that has the next segment as
  an own property, with more segments to follow; this value is an object, an array or a
  string. The walk acts on the truthiness of what it finds there, not on its being a
  mapping.

  A falsy value (\<^verbatim>\<open>null\<close>, \<^verbatim>\<open>false\<close>, \<^verbatim>\<open>0\<close>, \<^verbatim>\<open>-0\<close>, the empty string, \<^verbatim>\<open>undefined\<close>) that is a
  property of an object or an element of an array is replaced by a fresh empty object,
  into which the walk descends without throwing: the result has the chain of new objects
  around the value in its place, all else unchanged. The only other falsy property of an
  array is the length \<^verbatim>\<open>0\<close> of the empty array: assigning an object to it throws a
  \<^verbatim>\<open>RangeError\<close>. A falsy property of a string (the length of the empty string) cannot be
  assigned: a \<^verbatim>\<open>TypeError\<close>.

  A truthy value is never replaced: the walk goes on inside it as it is, and the outcome
  of the walk there is the outcome of the whole. Inside a truthy string, number or boolean
  it ends in a \<^verbatim>\<open>TypeError\<close>; inside an array it meets the elements and the length of the
  array, as above.

  The provisos on the engine say that the segments that follow do not name a property of a
  built-in prototype, and that an object is not a valid array length.
\<close>

theorem setPath_scalar_intermediate:
  assumes "ks \<noteq> []" and "own_property cur k = Some c"
  shows "(\<not> truthy c \<longrightarrow> cur = JObj kvs \<longrightarrow>
            (\<forall>k'\<in>set ks. prototype E (JObj []) k' = NoProperty) \<longrightarrow>
            walk E cur (k # ks) v = Inr (JObj (AList.update k (nested ks v) kvs)))
       \<and> (\<not> truthy c \<longrightarrow> cur = JArr xs \<longrightarrow> array_index k = Some i \<longrightarrow>
            (\<forall>k'\<in>set ks. prototype E (JObj []) k' = NoProperty) \<longrightarrow>
            walk E cur (k # ks) v = Inr (JArr (xs[i := nested ks v])))
       \<and> (\<not> truthy c \<longrightarrow> cur = JArr xs \<longrightarrow> array_index k = None \<longrightarrow>
            to_array_length E (JObj []) = None \<longrightarrow>
            k = ''length'' \<and> xs = [] \<and> walk E cur (k # ks) v = Inl RangeError)
       \<and> (\<not> truthy c \<longrightarrow> is_primitive cur \<longrightarrow> walk E cur (k # ks) v = Inl TypeError)
       \<and> (truthy c \<longrightarrow>
            walk E cur (k # ks) v
              = (case walk E c ks v of
                   Inl e \<Rightarrow> Inl e
                 | Inr c' \<Rightarrow> Inr (store_child cur k c')))
       \<and> (truthy c \<longrightarrow> is_primitive c \<longrightarrow>
            (\<forall>k'\<in>set ks. \<forall>p. is_primitive p \<longrightarrow> prototype E p k' = NoProperty) \<longrightarrow>
            walk E cur (k # ks) v = Inl TypeError)
       \<and> (is_object cur \<or> (\<exists>ys. cur = JArr ys) \<or> (\<exists>s. cur = JStr s))
       \<and> (split_path path = k # ks \<longrightarrow> setPath E cur path v = walk E cur (k # ks) v)"
proof -
  from assms(1) obtain k' ks' where ks: "ks = k' # ks'" by (cases ks) auto
  from assms(2) have kind: "is_object cur \<or> (\<exists>ys. cur = JArr ys) \<or> (\<exists>s. cur = JStr s)"
    by (cases cur) auto
  then have get: "get_property E cur k = Inr (Found c)"
    using assms(2) by (cases cur) auto
  have fresh: "walk E (JObj []) ks v = Inr (nested ks v)"
    if "\<forall>k'\<in>set ks. prototype E (JObj []) k' = NoProperty"
    using assms(1) that by (rule walk_fresh)
  have obj: "walk E cur (k # ks) v = Inr (JObj (AList.update k (nested ks v) kvs))"
    if "\<not> truthy c" and "cur = JObj kvs"
      and "\<forall>k'\<in>set ks. prototype E (JObj []) k' = NoProperty"
    using that(1,2) assms(2) fresh [OF that(3)] unfolding ks by simp
  have elem: "walk E cur (k # ks) v = Inr (JArr (xs[i := nested ks v]))"
    if "\<not> truthy c" and "cur = JArr xs" and "array_index k = Some i"
      and "\<forall>k'\<in>set ks. prototype E (JObj []) k' = NoProperty"
  proof -
    from assms(2) that(2,3) have "i < length xs" by (simp split: if_splits)
    with that(1,2,3) assms(2) fresh [OF that(4)] show ?thesis
      unfolding ks by (simp add: set_element_def)
  qed
  have len: "k = ''length'' \<and> xs = [] \<and> walk E cur (k # ks) v = Inl RangeError"
    if "\<not> truthy c" and "cur = JArr xs" and "array_index k = None"
      and "to_array_length E (JObj []) = None"
  proof -
    from assms(2) that(2,3) have k: "k = ''length''" and c: "c = JNum (of_nat (length xs))"
      by (simp_all split: if_splits)
    with that(1) have "xs = []" by simp
    with k c that(2,3,4) show ?thesis unfolding ks by simp
  qed
  have prim: "walk E cur (k # ks) v = Inl TypeError" if "\<not> truthy c" and "is_primitive cur"
    using that get assms(2) unfolding ks by (cases cur) simp_all
  have descend: "walk E cur (k # ks) v
      = (case walk E c ks v of Inl e \<Rightarrow> Inl e | Inr c' \<Rightarrow> Inr (store_child cur k c'))"
    if "truthy c"
    using that get unfolding ks by simp
  have scalar: "walk E cur (k # ks) v = Inl TypeError"
    if "truthy c" and "is_primitive c"
      and "\<forall>k'\<in>set ks. \<forall>p. is_primitive p \<longrightarrow> prototype E p k' = NoProperty"
  proof -
    from assms(1) that(2,1,3) have "walk E c ks v = Inl TypeError" by (rule walk_primitive)
    with descend [OF that(1)] show ?thesis by simp
  qed
  have path: "setPath E cur path v = walk E cur (k # ks) v" if "split_path path = k # ks"
    using that by (simp add: setPath_def)
  from obj elem len prim descend scalar kind path show ?thesis by blast
qed


text \<open>The example of the specification: the string \<^verbatim>\<open>"scalar"\<close> is truthy, so it is not replaced.\<close>

theorem setPath_scalar_intermediate_counterexample:
  "setPath example_engine (JObj [(''a'', JStr ''scalar'')]) ''a.b'' (JNum 5) = Inl TypeError
   \<and> setPath example_engine (JObj [(''a'', JStr ''scalar'')]) ''a.b'' (JNum 5)
       \<noteq> Inr (JObj [(''a'', JObj [(''b'', JNum 5)])])"
  by (simp add: walk_defs array_index_def is_digit_def)

theorem setPath_scalar_intermediate_witness:
  "own_property (JObj [(''a'', JNum 0)]) ''a'' = Some (JNum 0) \<and> \<not> truthy (JNum 0)
   \<and> prototype example_engine (JObj []) ''b'' = NoProperty
   \<and> split_path ''a.b'' = [''a'', ''b'']
   \<and> setPath example_engine (JObj [(''a'', JNum 0)]) ''a.b'' (JNum 5)
       = Inr (JObj [(''a'', JObj [(''b'', JNum 5)])])
   \<and> own_property (JObj [(''a'', JStr ''scalar'')]) ''a'' = Some (JStr ''scalar'')
   \<and> truthy (JStr ''scalar'') \<and> is_primitive (JStr ''scalar'')
   \<and> (\<forall>p. prototype example_engine p ''b'' = NoProperty)
   \<and> setPath example_engine (JObj [(''a'', JStr ''scalar'')]) ''a.b'' (JNum 5) = Inl TypeError
   \<and> own_property (JArr [JNum 0]) ''0'' = Some (JNum 0) \<and> array_index ''0'' = Some 0
   \<and> walk example_engine (JArr [JNum 0]) [''0'', ''b''] (JNum 5)
       = Inr (JArr [JObj [(''b'', JNum 5)]])
   \<and> own_property (JObj [(''a'', JArr [JNum 0])]) ''a'' = Some (JArr [JNum 0])
   \<and> truthy (JArr [JNum 0]) \<and> split_path ''a.0.b'' = [''a'', ''0'', ''b'']
   \<and> setPath example_engine (JObj [(''a'', JArr [JNum 0])]) ''a.0.b'' (JNum 5)
       = Inr (JObj [(''a'', JArr [JObj [(''b'', JNum 5)]])])
   \<and> own_property (JArr []) ''length'' = Some (JNum 0) \<and> array_index ''length'' = None
   \<and> to_array_length example_engine (JObj []) = None
   \<and> walk example_engine (JArr []) [''length'', ''b''] (JNum 5) = Inl RangeError
   \<and> split_path ''a.length.b'' = [''a'', ''length'', ''b'']
   \<and> setPath example_engine (JObj [(''a'', JArr [])]) ''a.length.b'' (JNum 5) = Inl RangeError
   \<and> setPath example_engine (JObj [(''a'', JArr [JNum 1])]) ''a.b'' (JNum 5)
       = Inr (JObj [(''a'', JArr [JNum 1])])"
proof -
  let ?E = example_engine
  have one: "[''b''] \<noteq> []" and two: "[''0'', ''b''] \<noteq> []" and two': "[''length'', ''b''] \<noteq> []"
    by simp_all
  have sp: "split_path ''a.b'' = [''a'', ''b'']"
    and sp0: "split_path ''a.0.b'' = [''a'', ''0'', ''b'']"
    and spl: "split_path ''a.length.b'' = [''a'', ''length'', ''b'']"
    by simp_all
  have q1: "prototype ?E (JObj []) ''b'' = NoProperty"
    and q2: "\<forall>p. prototype ?E p ''b'' = NoProperty"
    and q3: "to_array_length ?E (JObj []) = None"
    by (simp_all add: walk_defs)
  from q1 have p1: "\<forall>k'\<in>set [''b'']. prototype ?E (JObj []) k' = NoProperty" by simp
  from q2 have p2: "\<forall>k'\<in>set [''b'']. \<forall>p. is_primitive p \<longrightarrow> prototype ?E p k' = NoProperty"
    by simp
  have ix: "array_index ''0'' = Some 0" and il: "array_index ''length'' = None"
    by (simp_all add: index_defs)
  have o0: "own_property (JObj [(''a'', JNum 0)]) ''a'' = Some (JNum 0)" by simp
  have f0: "\<not> truthy (JNum 0)" by simp
  note zero = setPath_scalar_intermediate [OF one o0, where E = ?E and v = "JNum 5"
      and path = "''a.b''" and kvs = "[(''a'', JNum 0)]"]
  from zero f0 p1 sp
  have "setPath ?E (JObj [(''a'', JNum 0)]) ''a.b'' (JNum 5)
       = Inr (JObj (AList.update ''a'' (nested [''b''] (JNum 5)) [(''a'', JNum 0)]))"
    by simp
  then have r0: "setPath ?E (JObj [(''a'', JNum 0)]) ''a.b'' (JNum 5)
       = Inr (JObj [(''a'', JObj [(''b'', JNum 5)])])"
    by simp
  have o1: "own_property (JObj [(''a'', JStr ''scalar'')]) ''a'' = Some (JStr ''scalar'')" by simp
  have t1: "truthy (JStr ''scalar'')" "is_primitive (JStr ''scalar'')" by simp_all
  note str = setPath_scalar_intermediate [OF one o1, where E = ?E and v = "JNum 5"
      and path = "''a.b''"]
  from str t1 p2 have "walk ?E (JObj [(''a'', JStr ''scalar'')]) [''a'', ''b''] (JNum 5)
       = Inl TypeError"
    by blast
  with str sp have r1: "setPath ?E (JObj [(''a'', JStr ''scalar'')]) ''a.b'' (JNum 5)
       = Inl TypeError"
    by simp
  have o2: "own_property (JArr [JNum 0]) ''0'' = Some (JNum 0)" by (simp add: ix)
  note el = setPath_scalar_intermediate [OF one o2, where E = ?E and v = "JNum 5"
      and xs = "[JNum 0]" and i = 0]
  from el f0 ix p1 have "walk ?E (JArr [JNum 0]) [''0'', ''b''] (JNum 5)
       = Inr (JArr ([JNum 0][0 := nested [''b''] (JNum 5)]))"
    by blast
  then have w2: "walk ?E (JArr [JNum 0]) [''0'', ''b''] (JNum 5)
       = Inr (JArr [JObj [(''b'', JNum 5)]])"
    by simp
  have o3: "own_property (JObj [(''a'', JArr [JNum 0])]) ''a'' = Some (JArr [JNum 0])" by simp
  have t3: "truthy (JArr [JNum 0])" by simp
  note arr = setPath_scalar_intermediate [OF two o3, where E = ?E and v = "JNum 5"
      and path = "''a.0.b''"]
  from arr t3 have "walk ?E (JObj [(''a'', JArr [JNum 0])]) [''a'', ''0'', ''b''] (JNum 5)
       = (case walk ?E (JArr [JNum 0]) [''0'', ''b''] (JNum 5) of
            Inl e \<Rightarrow> Inl e
          | Inr c' \<Rightarrow> Inr (store_child (JObj [(''a'', JArr [JNum 0])]) ''a'' c'))"
    by blast
  with w2 arr sp0 have r2: "setPath ?E (JObj [(''a'', JArr [JNum 0])]) ''a.0.b'' (JNum 5)
       = Inr (JObj [(''a'', JArr [JObj [(''b'', JNum 5)]])])"
    by simp
  have o4: "own_property (JArr []) ''length'' = Some (JNum 0)" by (simp add: il)
  note ln = setPath_scalar_intermediate [OF one o4, where E = ?E and v = "JNum 5"
      and xs = "[]"]
  from ln f0 il q3 have w4: "walk ?E (JArr []) [''length'', ''b''] (JNum 5) = Inl RangeError"
    by blast
  have o5: "own_property (JObj [(''a'', JArr [])]) ''a'' = Some (JArr [])" by simp
  note emp = setPath_scalar_intermediate [OF two' o5, where E = ?E and v = "JNum 5"
      and path = "''a.length.b''"]
  have "truthy (JArr [])" by simp
  with emp have "walk ?E (JObj [(''a'', JArr [])]) [''a'', ''length'', ''b''] (JNum 5)
       = (case walk ?E (JArr []) [''length'', ''b''] (JNum 5) of
            Inl e \<Rightarrow> Inl e
          | Inr c' \<Rightarrow> Inr (store_child (JObj [(''a'', JArr [])]) ''a'' c'))"
    by blast
  with w4 emp spl have r4: "setPath ?E (JObj [(''a'', JArr [])]) ''a.length.b'' (JNum 5)
       = Inl RangeError"
    by simp
  have o6: "own_property (JObj [(''a'', JArr [JNum 1])]) ''a'' = Some (JArr [JNum 1])" by simp
  note last = setPath_scalar_intermediate [OF one o6, where E = ?E and v = "JNum 5"
      and path = "''a.b''"]
  have "truthy (JArr [JNum 1])" by simp
  with last have "walk ?E (JObj [(''a'', JArr [JNum 1])]) [''a'', ''b''] (JNum 5)
       = (case walk ?E (JArr [JNum 1]) [''b''] (JNum 5) of
            Inl e \<Rightarrow> Inl e
          | Inr c' \<Rightarrow> Inr (store_child (JObj [(''a'', JArr [JNum 1])]) ''a'' c'))"
    by blast
  with last sp have r6: "setPath ?E (JObj [(''a'', JArr [JNum 1])]) ''a.b'' (JNum 5)
       = Inr (JObj [(''a'', JArr [JNum 1])])"
    by (simp add: index_defs)
  from o0 f0 q1 sp r0 o1 t1 q2 r1 o2 ix w2 o3 t3 sp0 r2 o4 il q3 w4 spl r4 r6
  show ?thesis by blast
qed

end
